theory Spec2Isabelle
  imports Complex_Main
begin

section \<open>Numbers, dates and the record store\<close>

text \<open>
  The reward engine of the wiki token backend lives in
  \<^verbatim>\<open>backend/src/services/token-economy-service.ts\<close>,
  \<^verbatim>\<open>backend/src/services/rewards-service.ts\<close> and the route handlers of
  \<^verbatim>\<open>backend/src/api/routes/rewards-routes.ts\<close>; the tables are those of
  \<^verbatim>\<open>backend/models/index.ts\<close>, read and written through Sequelize 6.

  A JavaScript number is a double, and a double is a rational number. An arithmetic
  operation on doubles gives the exact result rounded to a double: \<open>x * y\<close> in the source
  is \<open>rnd (x * y)\<close> here, and likewise for \<open>/\<close>, \<open>+\<close> and \<open>-\<close>. The rounding \<open>rnd\<close> is an
  argument of every function that computes with fractions, so that what is proved holds
  for the rounding of IEEE doubles as for exact arithmetic (\<open>exact\<close>, no rounding at
  all). The literals 0.8, 0.7 and 0.1 are not doubles and stand for their roundings; 0.5,
  1.5, 2.5 and the integers are doubles. \<open>Math.floor\<close> is the floor, \<open>Math.round\<close> rounds
  half up, \<open>Math.max\<close>, \<open>Math.min\<close> and \<open>Math.abs\<close> are \<open>max\<close>, \<open>min\<close> and \<open>abs\<close>; none
  of them rounds. Points, token amounts and counts are integers below \<open>2^53\<close>, where
  doubles are exact: they are \<open>int\<close> and \<open>nat\<close>. \<open>NaN\<close> and the infinities are not
  numbers of the model: the one place where the code can produce them, the division of
  \<open>processUserReward\<close>, is a branch of its own.

  A \<open>Date\<close> is its number of milliseconds since the epoch, and a function reads the
  clock once. Every table is the list of its rows, in the order the queries return
  them. Of a table the record keeps the columns that the services use; of the automatic
  time stamps only \<open>createdAt\<close> of a contribution and \<open>updatedAt\<close> of an article are
  kept. The scale of a DECIMAL column is not modelled, and the points of the
  contributions and their sums over a window are taken to fit the INTEGER columns that
  hold them; the range of an INTEGER column is checked where a value computed from a
  request is written to it, in \<open>processUserReward\<close>. The treasury key pair, the mint and
  the connection of the distributor are taken to load. The text of an error message is
  given without its quotation marks.
\<close>

type_synonym date = int

type_synonym rounding = "rat \<Rightarrow> rat"

definition exact :: rounding where
  "exact x = x"

text \<open>\<open>xs.reduce((sum, x) => sum + x, 0)\<close>: the sum from the left, rounded at every step.\<close>

definition reduceSum :: "rounding \<Rightarrow> rat list \<Rightarrow> rat" where
  "reduceSum rnd xs = fold (\<lambda>x acc. rnd (acc + x)) xs 0"

definition Math_floor :: "rat \<Rightarrow> int" where
  "Math_floor x = \<lfloor>x\<rfloor>"

definition Math_round :: "rat \<Rightarrow> int" where
  "Math_round x = \<lfloor>x + 1 / 2\<rfloor>"

text \<open>
  \<open>x.toFixed(2)\<close>: the nearest multiple of 1/100, the larger one at a tie, in decimal
  digits; \<open>parseFloat\<close> rounds it to a double.
\<close>

definition toFixed2 :: "rat \<Rightarrow> rat" where
  "toFixed2 x = of_int \<lfloor>x * 100 + 1 / 2\<rfloor> / 100"

datatype contribution_type = creation | major_edit | minor_edit | review

record user =
  u_id :: string
  u_walletAddress :: string
  u_username :: string
  u_reputation :: rat
  u_totalContributions :: int
  u_totalPoints :: int
  u_totalTokensEarned :: rat
  u_lastActiveAt :: date

record article =
  a_id :: string
  a_qualityScore :: rat
  a_totalRevisions :: int
  a_updatedAt :: date

record tag =
  t_id :: string
  t_name :: string
  t_demandMultiplier :: rat

text \<open>
  The models declare no foreign key. The associations \<open>User.hasMany(Contribution)\<close>,
  \<open>Contribution.belongsTo(User)\<close> and their like are declared without a \<open>foreignKey\<close>
  option, so the key columns they add bear the names \<open>UserId\<close>, \<open>ArticleId\<close> and
  \<open>WeeklyRewardId\<close>; a key that was never set is \<open>null\<close>, here \<open>None\<close>.
\<close>

record contribution =
  c_UserId :: "string option"
  c_ArticleId :: "string option"
  c_type :: contribution_type
  c_basePoints :: int
  c_qualityMultiplier :: rat
  c_reputationMultiplier :: rat
  c_demandMultiplier :: rat
  c_totalPoints :: int
  c_description :: "string option"
  c_createdAt :: date

text \<open>
  The status of a run is a string; the column is declared
  \<open>ENUM('pending', 'processing', 'completed', 'failed')\<close>.
\<close>

record weekly_reward =
  wr_id :: nat
  wr_weekStartDate :: date
  wr_weekEndDate :: date
  wr_totalPoints :: int
  wr_totalTokens :: rat
  wr_pointToTokenRatio :: rat
  wr_distributionTxHash :: "string option"
  wr_distributedAt :: "date option"
  wr_status :: string

record user_reward =
  ur_UserId :: "string option"
  ur_WeeklyRewardId :: "nat option"
  ur_points :: int
  ur_tokens :: rat
  ur_txHash :: "string option"

text \<open>
  What one transfer attempt of the distributor meets: it fails before anything is sent
  (\<open>new PublicKey\<close> throws on an invalid address, or \<open>getAssociatedTokenAddress\<close> or
  \<open>getLatestBlockhash\<close> throws), \<open>sendRawTransaction\<close> throws,
  \<open>confirmTransaction\<close> throws after the transaction with the given signature was
  sent, or \<open>confirmTransaction\<close> returns.
\<close>

datatype ledger_outcome =
  invalid_address | send_rejected | confirm_timeout string | confirmed string

text \<open>
  An exception, with its message: a \<open>TypeError\<close> of JavaScript, an \<open>Error\<close> thrown by the
  services or by Sequelize before a query is sent, and an error of the database.
\<close>

datatype error = TypeError string | Error string | DatabaseError string

fun message :: "error \<Rightarrow> string" where
  "message (TypeError m) = m"
| "message (Error m) = m"
| "message (DatabaseError m) = m"

text \<open>
  The store: the tables, the rows of the junction table \<open>ArticleTag\<close> as pairs
  (article id, tag id), and the log of the ledger: one entry (recipient wallet, amount in
  base units, outcome) per transfer attempt, oldest first.
\<close>

record store =
  users :: "user list"
  articles :: "article list"
  tags :: "tag list"
  articleTags :: "(string \<times> string) list"
  contributions :: "contribution list"
  weeklyRewards :: "weekly_reward list"
  userRewards :: "user_reward list"
  ledgerLog :: "(string \<times> int \<times> ledger_outcome) list"

definition TOKEN_DECIMALS :: nat where
  "TOKEN_DECIMALS = 9"

definition WEEKLY_REWARD_POOL :: rat where
  "WEEKLY_REWARD_POOL = 200000"

definition MIN_TOKENS_PER_USER :: int where
  "MIN_TOKENS_PER_USER = 10"

section \<open>Rows, keys and queries\<close>

text \<open>
  \<open>Model.create(values)\<close> builds the row from the values whose key is an attribute of
  the model and drops the others without a word. \<open>Contribution.create\<close> is given
  \<open>userId\<close> and \<open>articleId\<close>, which are no attributes of \<open>Contribution\<close>: the row is
  stored with its keys \<open>UserId\<close> and \<open>ArticleId\<close> null. The column \<open>createdAt\<close> takes the
  clock.
\<close>

definition createContribution ::
  "string \<Rightarrow> string \<Rightarrow> contribution_type \<Rightarrow> int \<Rightarrow> rat \<Rightarrow> rat \<Rightarrow> rat \<Rightarrow> int \<Rightarrow> string option
     \<Rightarrow> date \<Rightarrow> contribution" where
  "createContribution userId articleId contributionType basePoints qualityMultiplier
     reputationMultiplier demandMultiplier totalPoints description now =
     \<lparr>c_UserId = None,
      c_ArticleId = None,
      c_type = contributionType,
      c_basePoints = basePoints,
      c_qualityMultiplier = qualityMultiplier,
      c_reputationMultiplier = reputationMultiplier,
      c_demandMultiplier = demandMultiplier,
      c_totalPoints = totalPoints,
      c_description = description,
      c_createdAt = now\<rparr>"

text \<open>
  \<open>contribution.userId\<close>: the property is no attribute of the row and nothing sets it,
  so reading it gives \<open>undefined\<close>, here \<open>None\<close>, for every contribution.
\<close>

definition contribution_userId :: "contribution \<Rightarrow> string option" where
  "contribution_userId c = None"

text \<open>
  \<open>UserReward.create\<close> is given \<open>userId\<close> and \<open>weeklyRewardId\<close>, which are no
  attributes of \<open>UserReward\<close>: both are dropped, and the row is stored with its keys
  \<open>UserId\<close> and \<open>WeeklyRewardId\<close> null.
\<close>

definition createUserReward ::
  "string option \<Rightarrow> nat \<Rightarrow> int \<Rightarrow> rat \<Rightarrow> string option \<Rightarrow> user_reward" where
  "createUserReward userId weeklyRewardId points tokens txHash =
     \<lparr>ur_UserId = None,
      ur_WeeklyRewardId = None,
      ur_points = points,
      ur_tokens = tokens,
      ur_txHash = txHash\<rparr>"

text \<open>The range of a column of type INTEGER.\<close>

definition fitsINTEGER :: "int \<Rightarrow> bool" where
  "fitsINTEGER n \<longleftrightarrow> - 2147483648 \<le> n \<and> n \<le> 2147483647"

definition findUserByPk :: "store \<Rightarrow> string \<Rightarrow> user option" where
  "findUserByPk s uid = find (\<lambda>u. u_id u = uid) (users s)"

text \<open>
  \<open>include: [{ model: User }]\<close>: the user joined to a contribution over its key
  \<open>UserId\<close>; \<open>contribution.User\<close> is \<open>null\<close> when the key is null or no user has it.
\<close>

definition includedUser :: "store \<Rightarrow> contribution \<Rightarrow> user option" where
  "includedUser s c = (case c_UserId c of None \<Rightarrow> None | Some uid \<Rightarrow> findUserByPk s uid)"

definition updateUsersWhereId :: "string \<Rightarrow> (user \<Rightarrow> user) \<Rightarrow> store \<Rightarrow> store" where
  "updateUsersWhereId uid f s =
     s\<lparr>users := map (\<lambda>u. if u_id u = uid then f u else u) (users s)\<rparr>"

text \<open>
  \<open>User.increment(..., { where: { id } })\<close> with an id that may be \<open>undefined\<close>:
  Sequelize refuses to build a \<open>where\<close> clause from \<open>undefined\<close> and throws.
\<close>

definition incrementUsersWhereId ::
  "string option \<Rightarrow> (user \<Rightarrow> user) \<Rightarrow> store \<Rightarrow> error + store" where
  "incrementUsersWhereId userId f s =
     (case userId of
        None \<Rightarrow> Inl (Error ''WHERE parameter id has invalid undefined value'')
      | Some uid \<Rightarrow> Inr (updateUsersWhereId uid f s))"

definition updateArticlesWhereId :: "string \<Rightarrow> (article \<Rightarrow> article) \<Rightarrow> store \<Rightarrow> store" where
  "updateArticlesWhereId aid f s =
     s\<lparr>articles := map (\<lambda>a. if a_id a = aid then f a else a) (articles s)\<rparr>"

text \<open>
  The columns of the table of the contributions: the attributes of the model, the
  automatic \<open>updatedAt\<close>, and the keys that the associations add.
\<close>

definition contributionColumns :: "string list" where
  "contributionColumns =
     [''id'', ''type'', ''basePoints'', ''qualityMultiplier'', ''reputationMultiplier'',
      ''demandMultiplier'', ''totalPoints'', ''description'', ''createdAt'', ''updatedAt'',
      ''UserId'', ''ArticleId'']"

text \<open>The key that a row holds in a key column; the other columns hold no key.\<close>

definition contributionKey :: "string \<Rightarrow> contribution \<Rightarrow> string option" where
  "contributionKey column c =
     (if column = ''UserId'' then c_UserId c
      else if column = ''ArticleId'' then c_ArticleId c
      else None)"

text \<open>
  \<open>Contribution.findAll({ where: { [column]: key } })\<close>. Sequelize writes the name of
  the \<open>where\<close> clause into the query as it stands; the database refuses a query that
  names a column the table does not have, and \<open>findAll\<close> throws.
\<close>

definition findAllContributionsWhere :: "store \<Rightarrow> string \<Rightarrow> string \<Rightarrow> error + contribution list" where
  "findAllContributionsWhere s column key =
     (if column \<in> set contributionColumns
      then Inr (filter (\<lambda>c. contributionKey column c = Some key) (contributions s))
      else Inl (DatabaseError (''column Contribution.'' @ column @ '' does not exist'')))"

text \<open>
  The values of the column \<open>status\<close> of a run, and a write of the status and of other
  columns to the run with the given id: the column refuses a value that is not of its
  ENUM, the write throws and the row stays as it was.
\<close>

definition statusENUM :: "string list" where
  "statusENUM = [''pending'', ''processing'', ''completed'', ''failed'']"

definition updateWeeklyReward ::
  "nat \<Rightarrow> string \<Rightarrow> (weekly_reward \<Rightarrow> weekly_reward) \<Rightarrow> store \<Rightarrow> error + store" where
  "updateWeeklyReward wid status f s =
     (if status \<in> set statusENUM
      then Inr (s\<lparr>weeklyRewards :=
                    map (\<lambda>w. if wr_id w = wid then f (w\<lparr>wr_status := status\<rparr>) else w)
                        (weeklyRewards s)\<rparr>)
      else Inl (DatabaseError (''invalid input value for enum enum_WeeklyRewards_status: '' @ status)))"

section \<open>Scoring: calculatePoints and recordContribution\<close>

text \<open>The \<open>switch\<close> over the contribution type: the range (min, max) of the base points.\<close>

fun basePointsRange :: "contribution_type \<Rightarrow> int \<times> int" where
  "basePointsRange creation = (50, 200)"
| "basePointsRange major_edit = (20, 100)"
| "basePointsRange minor_edit = (5, 20)"
| "basePointsRange review = (10, 50)"

text \<open>
  \<open>tags.reduce((sum, tag) => sum + tag.demandMultiplier, 0) / tags.length\<close>, called on
  a list that is not empty.
\<close>

definition averageDemand :: "rounding \<Rightarrow> tag list \<Rightarrow> rat" where
  "averageDemand rnd ts = rnd (reduceSum rnd (map t_demandMultiplier ts) / of_nat (length ts))"

definition articleTagObjects :: "store \<Rightarrow> string \<Rightarrow> tag list" where
  "articleTagObjects s aid = filter (\<lambda>t. (aid, t_id t) \<in> set (articleTags s)) (tags s)"

text \<open>
  The demand multiplier of \<open>calculatePoints\<close>: the tags given by name when the argument
  is a list that is not empty, else the tags of the article when \<open>articleId\<close> is truthy
  and the article exists, else 1.0. An optional argument left out is \<open>None\<close>.
\<close>

definition demandMultiplierFor ::
  "rounding \<Rightarrow> store \<Rightarrow> string option \<Rightarrow> string list option \<Rightarrow> rat" where
  "demandMultiplierFor rnd s articleId tagNames =
     (case tagNames of
        Some (n # ns) \<Rightarrow>
          (let tagObjects = filter (\<lambda>t. t_name t \<in> set (n # ns)) (tags s)
           in if length tagObjects > 0 then averageDemand rnd tagObjects else 1)
      | _ \<Rightarrow>
          (case articleId of
             None \<Rightarrow> 1
           | Some aid \<Rightarrow>
               if aid = [] then 1
               else if find (\<lambda>a. a_id a = aid) (articles s) = None then 1
               else (let ts = articleTagObjects s aid
                     in if length ts > 0 then averageDemand rnd ts else 1)))"

record points_data =
  pd_basePoints :: int
  pd_qualityMultiplier :: rat
  pd_reputationMultiplier :: rat
  pd_demandMultiplier :: rat
  pd_totalPoints :: int

text \<open>
  \<open>calculatePoints\<close>. The two calls of \<open>Math.random()\<close> are the arguments \<open>random1\<close>
  (base points) and \<open>random2\<close> (quality), each in [0, 1). The product of the four factors
  is taken from the left.
\<close>

definition calculatePoints ::
  "rounding \<Rightarrow> store \<Rightarrow> rat \<Rightarrow> rat \<Rightarrow> contribution_type \<Rightarrow> string \<Rightarrow> string option
     \<Rightarrow> string list option \<Rightarrow> points_data" where
  "calculatePoints rnd s random1 random2 contributionType userId articleId tagNames =
     (let (mn, mx) = basePointsRange contributionType;
          base = Math_floor (rnd (of_int mn + rnd (random1 * of_int (mx - mn + 1))));
          reputation = (case findUserByPk s userId of Some u \<Rightarrow> u_reputation u | None \<Rightarrow> 1);
          quality = rnd (toFixed2 (rnd (1 / 2 + rnd (random2 * (5 / 2)))));
          demand = demandMultiplierFor rnd s articleId tagNames
      in \<lparr>pd_basePoints = base,
          pd_qualityMultiplier = quality,
          pd_reputationMultiplier = reputation,
          pd_demandMultiplier = demand,
          pd_totalPoints =
            Math_floor (rnd (rnd (rnd (of_int base * quality) * reputation) * demand))\<rparr>)"

text \<open>
  \<open>recordContribution\<close>: the contribution row is created from the points data, then the
  statistics of the user and of the article are updated. \<open>now\<close> is the clock.
  \<open>Article.increment\<close> sets the column \<open>updatedAt\<close> of the rows it changes.
\<close>

definition recordContribution ::
  "rounding \<Rightarrow> store \<Rightarrow> date \<Rightarrow> rat \<Rightarrow> rat \<Rightarrow> string \<Rightarrow> string \<Rightarrow> contribution_type
     \<Rightarrow> string option \<Rightarrow> string list option \<Rightarrow> contribution \<times> store" where
  "recordContribution rnd s now random1 random2 userId articleId contributionType description
     tagNames =
     (let pointsData =
            calculatePoints rnd s random1 random2 contributionType userId (Some articleId) tagNames;
          c = createContribution userId articleId contributionType
                (pd_basePoints pointsData) (pd_qualityMultiplier pointsData)
                (pd_reputationMultiplier pointsData) (pd_demandMultiplier pointsData)
                (pd_totalPoints pointsData) description now;
          s1 = s\<lparr>contributions := contributions s @ [c]\<rparr>;
          s2 = updateUsersWhereId userId
                 (\<lambda>u. u\<lparr>u_totalContributions := u_totalContributions u + 1,
                          u_totalPoints := u_totalPoints u + pd_totalPoints pointsData\<rparr>) s1;
          s3 = updateUsersWhereId userId (\<lambda>u. u\<lparr>u_lastActiveAt := now\<rparr>) s2;
          s4 = (if contributionType \<noteq> creation
                then updateArticlesWhereId articleId
                       (\<lambda>a. a\<lparr>a_totalRevisions := a_totalRevisions a + 1,
                                a_updatedAt := now\<rparr>) s3
                else s3);
          s5 = (if contributionType = creation \<or> contributionType = major_edit
                then updateArticlesWhereId articleId
                       (\<lambda>a. a\<lparr>a_qualityScore := pd_qualityMultiplier pointsData,
                                a_updatedAt := now\<rparr>) s4
                else s4)
      in (c, s5))"

section \<open>Reputation: updateUserReputation\<close>

text \<open>
  The query \<open>Contribution.findAll({ where: { userId }, order: [['createdAt', 'DESC']],
  limit: 100 })\<close>: the rows of the \<open>where\<close> clause, newest first, at most 100 of them.
  The clause names the column \<open>userId\<close>.
\<close>

definition recentContributionsOf :: "store \<Rightarrow> string \<Rightarrow> error + contribution list" where
  "recentContributionsOf s userId =
     (case findAllContributionsWhere s ''userId'' userId of
        Inl e \<Rightarrow> Inl e
      | Inr cs \<Rightarrow> Inr (take 100 (sort_key (\<lambda>c. - c_createdAt c) cs)))"

definition avgQuality :: "rounding \<Rightarrow> contribution list \<Rightarrow> rat" where
  "avgQuality rnd cs = rnd (reduceSum rnd (map c_qualityMultiplier cs) / of_nat (length cs))"

text \<open>\<open>0.8 + (avgQuality - 0.5) * (0.7 / 2.5)\<close>\<close>

definition baseReputation :: "rounding \<Rightarrow> rat \<Rightarrow> rat" where
  "baseReputation rnd q =
     rnd (rnd (4 / 5) + rnd (rnd (q - 1 / 2) * rnd (rnd (7 / 10) / (5 / 2))))"

definition stakingBoost :: rat where
  "stakingBoost = 0"

text \<open>\<open>Math.max(0.8, Math.min(1.5, baseReputation * (1 + stakingBoost / 100)))\<close>\<close>

definition newReputation :: "rounding \<Rightarrow> rat \<Rightarrow> rat" where
  "newReputation rnd q =
     max (rnd (4 / 5))
         (min (3 / 2) (rnd (baseReputation rnd q * rnd (1 + rnd (stakingBoost / 100)))))"

text \<open>
  \<open>updateUserReputation\<close>: an exception of the query is logged and thrown again.
\<close>

definition updateUserReputation :: "rounding \<Rightarrow> store \<Rightarrow> string \<Rightarrow> error + (rat \<times> store)" where
  "updateUserReputation rnd s userId =
     (case recentContributionsOf s userId of
        Inl e \<Rightarrow> Inl e
      | Inr cs \<Rightarrow>
          if length cs = 0 then Inr (1, s)
          else (let r = newReputation rnd (avgQuality rnd cs)
                in Inr (r, updateUsersWhereId userId (\<lambda>u. u\<lparr>u_reputation := r\<rparr>) s)))"

section \<open>Demand: updateTagDemandMultipliers\<close>

definition THIRTY_DAYS :: int where
  "THIRTY_DAYS = 30 * 24 * 60 * 60 * 1000"

text \<open>
  The query of \<open>updateTagDemandMultipliers\<close> gives every tag with its articles (over the
  junction table) and, for each article, the contributions joined to it over their key
  \<open>ArticleId\<close> and created at or after \<open>Date.now() - 30 * 24 * 60 * 60 * 1000\<close>; the
  loop adds up their numbers.
\<close>

definition recentArticleContributions :: "store \<Rightarrow> date \<Rightarrow> string \<Rightarrow> contribution list" where
  "recentArticleContributions s now aid =
     filter (\<lambda>c. c_ArticleId c = Some aid \<and> c_createdAt c \<ge> now - THIRTY_DAYS) (contributions s)"

definition tagArticles :: "store \<Rightarrow> tag \<Rightarrow> article list" where
  "tagArticles s t = filter (\<lambda>a. (a_id a, t_id t) \<in> set (articleTags s)) (articles s)"

definition totalContributionsOfTag :: "store \<Rightarrow> date \<Rightarrow> tag \<Rightarrow> nat" where
  "totalContributionsOfTag s now t =
     sum_list (map (\<lambda>a. length (recentArticleContributions s now (a_id a))) (tagArticles s t))"

definition newDemandMultiplier :: "rounding \<Rightarrow> nat \<Rightarrow> rat" where
  "newDemandMultiplier rnd totalContributions =
     (if totalContributions > 0
      then rnd (1 + min (3 / 2) (rnd (of_nat totalContributions / 10)))
      else 1)"

text \<open>
  One round of the loop for the fetched tag \<open>t\<close> whose recent contributions number \<open>n\<close>:
  the row is written, and counted, only when the multiplier moves by more than 0.1.
\<close>

definition updateTag :: "rounding \<Rightarrow> tag \<Rightarrow> nat \<Rightarrow> nat \<times> store \<Rightarrow> nat \<times> store" where
  "updateTag rnd t n acc =
     (let (updatedTags, s) = acc; new = newDemandMultiplier rnd n
      in if abs (rnd (new - t_demandMultiplier t)) > rnd (1 / 10)
         then (updatedTags + 1,
               s\<lparr>tags := map (\<lambda>r. if t_id r = t_id t then r\<lparr>t_demandMultiplier := new\<rparr> else r) (tags s)\<rparr>)
         else (updatedTags, s))"

definition updateTagDemandMultipliers :: "rounding \<Rightarrow> store \<Rightarrow> date \<Rightarrow> nat \<times> store" where
  "updateTagDemandMultipliers rnd s now =
     fold (\<lambda>t acc. updateTag rnd t (totalContributionsOfTag s now t) acc) (tags s) (0, s)"

section \<open>Aggregation and planning: calculateWeeklyRewards\<close>

text \<open>
  \<open>Contribution.findAll\<close> with \<open>createdAt: { [Op.between]: [startDate, endDate] }\<close>: the
  operator is SQL's \<open>BETWEEN startDate AND endDate\<close>.
\<close>

definition contributionsBetween :: "store \<Rightarrow> date \<Rightarrow> date \<Rightarrow> contribution list" where
  "contributionsBetween s startDate endDate =
     filter (\<lambda>c. startDate \<le> c_createdAt c \<and> c_createdAt c \<le> endDate) (contributions s)"

text \<open>
  A JavaScript \<open>Map\<close> (and an object) keeps its entries in the order of their
  insertion: an association list, \<open>set\<close> replacing the value in place.
\<close>

fun map_set :: "'k \<Rightarrow> 'v \<Rightarrow> ('k \<times> 'v) list \<Rightarrow> ('k \<times> 'v) list" where
  "map_set k v [] = [(k, v)]"
| "map_set k v ((k', v') # m) = (if k' = k then (k, v) # m else (k', v') # map_set k v m)"

text \<open>
  The \<open>forEach\<close> of \<open>calculateWeeklyRewards\<close> over the fetched contributions, each
  joined to its user. The key of the \<open>Map\<close> is \<open>contribution.userId\<close>, and \<open>undefined\<close>
  is a key like another; the value is (points, walletAddress). The wallet address is
  read of every contribution: the user of a contribution that has none is \<open>null\<close>, and
  reading its \<open>walletAddress\<close> throws.
\<close>

fun groupByUser ::
  "store \<Rightarrow> contribution list \<Rightarrow> (string option \<times> int \<times> string) list
     \<Rightarrow> error + (string option \<times> int \<times> string) list" where
  "groupByUser s [] userPointsMap = Inr userPointsMap"
| "groupByUser s (c # cs) userPointsMap =
     (case includedUser s c of
        None \<Rightarrow> Inl (TypeError ''Cannot read properties of null (reading walletAddress)'')
      | Some u \<Rightarrow>
          (let userId = contribution_userId c;
               m1 = (if map_of userPointsMap userId = None
                     then map_set userId (0, u_walletAddress u) userPointsMap
                     else userPointsMap)
           in case map_of m1 userId of
                None \<Rightarrow> Inl (TypeError ''Cannot read properties of undefined (reading points)'')
              | Some (p, w) \<Rightarrow>
                  groupByUser s cs (map_set userId (p + c_totalPoints c, w) m1)))"

record user_reward_data =
  rd_userId :: "string option"
  rd_walletAddress :: string
  rd_points :: int
  rd_tokenAmount :: int

definition sumPoints :: "(string option \<times> int \<times> string) list \<Rightarrow> int" where
  "sumPoints userPointsMap = sum_list (map (\<lambda>(userId, p, w). p) userPointsMap)"

definition calculateWeeklyRewards ::
  "rounding \<Rightarrow> store \<Rightarrow> date \<Rightarrow> date \<Rightarrow> error + user_reward_data list" where
  "calculateWeeklyRewards rnd s startDate endDate =
     (case groupByUser s (contributionsBetween s startDate endDate) [] of
        Inl e \<Rightarrow> Inl e
      | Inr userPointsMap \<Rightarrow>
          (let totalPts = sumPoints userPointsMap
           in if totalPts = 0 then Inr []
              else (let pointToTokenRatio = rnd (WEEKLY_REWARD_POOL / of_int totalPts)
                    in Inr (map (\<lambda>(userId, p, w).
                                  \<lparr>rd_userId = userId,
                                   rd_walletAddress = w,
                                   rd_points = p,
                                   rd_tokenAmount =
                                     max (Math_floor (rnd (of_int p * pointToTokenRatio)))
                                         MIN_TOKENS_PER_USER\<rparr>)
                             userPointsMap))))"

section \<open>Distribution: distributeWeeklyRewards\<close>

record distribution_result =
  res_success :: bool
  res_totalUsers :: nat
  res_totalTokens :: int
  res_totalPoints :: int
  res_weekStartDate :: date
  res_weekEndDate :: date
  res_successfulTransactions :: nat
  res_failedTransactions :: nat
  res_errorMessage :: "string option"

text \<open>The id of a new row: one that no row of the table has.\<close>

definition newId :: "weekly_reward list \<Rightarrow> nat" where
  "newId ws = Suc (fold max (map wr_id ws) 0)"

text \<open>
  The body of the \<open>for\<close> loop, for one planned reward; the state of the loop is
  (successfulTransactions, failedTransactions, store). The ledger is asked what the
  attempt meets, given the number of attempts before it, the recipient and the amount
  in base units. A reward with no wallet address is counted as failed and skipped
  (\<open>continue\<close>). After a confirmed transfer the reward row with the signature is
  created, then the tokens earned of the user are incremented. Any exception inside the
  \<open>try\<close>, that of the increment too, is caught: a reward row with \<open>txHash: null\<close> is
  created and the reward is counted as failed.
\<close>

definition processReward ::
  "(nat \<Rightarrow> string \<Rightarrow> int \<Rightarrow> ledger_outcome) \<Rightarrow> nat \<Rightarrow> user_reward_data
     \<Rightarrow> nat \<times> nat \<times> store \<Rightarrow> nat \<times> nat \<times> store" where
  "processReward ledger weeklyRewardId reward acc =
     (let (successfulTransactions, failedTransactions, s) = acc
      in if rd_walletAddress reward = [] then (successfulTransactions, failedTransactions + 1, s)
         else
           (let tokenAmount = rd_tokenAmount reward * 10 ^ TOKEN_DECIMALS;
                outcome = ledger (length (ledgerLog s)) (rd_walletAddress reward) tokenAmount;
                s1 = s\<lparr>ledgerLog := ledgerLog s @ [(rd_walletAddress reward, tokenAmount, outcome)]\<rparr>;
                failedReward =
                  createUserReward (rd_userId reward) weeklyRewardId (rd_points reward)
                    (of_int (rd_tokenAmount reward)) None
            in case outcome of
                 confirmed signature \<Rightarrow>
                   (let s2 = s1\<lparr>userRewards := userRewards s1 @
                                  [createUserReward (rd_userId reward) weeklyRewardId
                                     (rd_points reward) (of_int (rd_tokenAmount reward))
                                     (Some signature)]\<rparr>
                    in case incrementUsersWhereId (rd_userId reward)
                              (\<lambda>u. u\<lparr>u_totalTokensEarned :=
                                         u_totalTokensEarned u + of_int (rd_tokenAmount reward)\<rparr>)
                              s2 of
                         Inr s3 \<Rightarrow> (successfulTransactions + 1, failedTransactions, s3)
                       | Inl e \<Rightarrow>
                           (successfulTransactions, failedTransactions + 1,
                            s2\<lparr>userRewards := userRewards s2 @ [failedReward]\<rparr>))
               | _ \<Rightarrow>
                   (successfulTransactions, failedTransactions + 1,
                    s1\<lparr>userRewards := userRewards s1 @ [failedReward]\<rparr>)))"

definition resolveStatus :: "nat \<Rightarrow> nat \<Rightarrow> string" where
  "resolveStatus successfulTransactions failedTransactions =
     (if successfulTransactions > 0
      then (if failedTransactions > 0 then ''partial'' else ''completed'')
      else ''failed'')"

text \<open>The result of the outer \<open>catch\<close>.\<close>

definition failureResult :: "date \<Rightarrow> date \<Rightarrow> error \<Rightarrow> distribution_result" where
  "failureResult startDate endDate e =
     \<lparr>res_success = False, res_totalUsers = 0, res_totalTokens = 0, res_totalPoints = 0,
      res_weekStartDate = startDate, res_weekEndDate = endDate,
      res_successfulTransactions = 0, res_failedTransactions = 0,
      res_errorMessage = Some (message e)\<rparr>"

text \<open>
  \<open>distributeWeeklyRewards\<close>. An exception of the planner or of the last update of the
  run ends in the outer \<open>catch\<close>, with what was written before it left in the store.
\<close>

definition distributeWeeklyRewards ::
  "rounding \<Rightarrow> (nat \<Rightarrow> string \<Rightarrow> int \<Rightarrow> ledger_outcome) \<Rightarrow> date \<Rightarrow> store \<Rightarrow> date \<Rightarrow> date
     \<Rightarrow> distribution_result \<times> store" where
  "distributeWeeklyRewards rnd ledger now s startDate endDate =
     (case calculateWeeklyRewards rnd s startDate endDate of
        Inl e \<Rightarrow> (failureResult startDate endDate e, s)
      | Inr rewards \<Rightarrow>
          if length rewards = 0
          then (\<lparr>res_success = True, res_totalUsers = 0, res_totalTokens = 0, res_totalPoints = 0,
                 res_weekStartDate = startDate, res_weekEndDate = endDate,
                 res_successfulTransactions = 0, res_failedTransactions = 0,
                 res_errorMessage = None\<rparr>, s)
          else
            (let totalTokens = sum_list (map rd_tokenAmount rewards);
                 totalPts = sum_list (map rd_points rewards);
                 weeklyReward =
                   \<lparr>wr_id = newId (weeklyRewards s),
                    wr_weekStartDate = startDate,
                    wr_weekEndDate = endDate,
                    wr_totalPoints = totalPts,
                    wr_totalTokens = of_int totalTokens,
                    wr_pointToTokenRatio = rnd (WEEKLY_REWARD_POOL / of_int totalPts),
                    wr_distributionTxHash = None,
                    wr_distributedAt = None,
                    wr_status = ''processing''\<rparr>;
                 s1 = s\<lparr>weeklyRewards := weeklyRewards s @ [weeklyReward]\<rparr>;
                 (successfulTransactions, failedTransactions, s2) =
                   fold (processReward ledger (wr_id weeklyReward)) rewards (0, 0, s1)
             in case updateWeeklyReward (wr_id weeklyReward)
                       (resolveStatus successfulTransactions failedTransactions)
                       (\<lambda>w. w\<lparr>wr_distributedAt := Some now,
                                wr_distributionTxHash := Some ''batch_distribution''\<rparr>)
                       s2 of
                  Inl e \<Rightarrow> (failureResult startDate endDate e, s2)
                | Inr s3 \<Rightarrow>
                    (\<lparr>res_success = (successfulTransactions > 0),
                      res_totalUsers = length rewards,
                      res_totalTokens = totalTokens,
                      res_totalPoints = totalPts,
                      res_weekStartDate = startDate,
                      res_weekEndDate = endDate,
                      res_successfulTransactions = successfulTransactions,
                      res_failedTransactions = failedTransactions,
                      res_errorMessage = None\<rparr>, s3)))"

section \<open>The rewards service and its routes\<close>

record user_points =
  up_userId :: "string option"
  up_walletAddress :: string
  up_username :: string
  up_points :: int
  up_contributionCount :: int

text \<open>The name of a property of an object: the key as a string.\<close>

fun propertyKey :: "string option \<Rightarrow> string" where
  "propertyKey None = ''undefined''"
| "propertyKey (Some k) = k"

text \<open>
  The \<open>forEach\<close> of \<open>calculateRewards\<close>: the object \<open>userPoints\<close>, keyed by
  \<open>contribution.userId\<close>, as the list of its entries in \<open>Object.values\<close> order. The
  user of a contribution is read only when its key is new.
\<close>

fun groupRewards ::
  "store \<Rightarrow> contribution list \<Rightarrow> (string \<times> user_points) list
     \<Rightarrow> error + (string \<times> user_points) list" where
  "groupRewards s [] userPoints = Inr userPoints"
| "groupRewards s (c # cs) userPoints =
     (let userId = contribution_userId c;
          m1 = (if map_of userPoints (propertyKey userId) = None
                then (case includedUser s c of
                        None \<Rightarrow> Inl (TypeError ''Cannot read properties of null (reading walletAddress)'')
                      | Some u \<Rightarrow>
                          Inr (map_set (propertyKey userId)
                                 \<lparr>up_userId = userId,
                                  up_walletAddress = u_walletAddress u,
                                  up_username = u_username u,
                                  up_points = 0,
                                  up_contributionCount = 0\<rparr> userPoints))
                else Inr userPoints)
      in case m1 of
           Inl e \<Rightarrow> Inl e
         | Inr m \<Rightarrow>
             (case map_of m (propertyKey userId) of
                None \<Rightarrow> Inl (TypeError ''Cannot read properties of undefined (reading points)'')
              | Some r \<Rightarrow>
                  groupRewards s cs
                    (map_set (propertyKey userId)
                       (r\<lparr>up_points := up_points r + c_totalPoints c,
                          up_contributionCount := up_contributionCount r + 1\<rparr>) m)))"

definition calculateRewards :: "store \<Rightarrow> date \<Rightarrow> date \<Rightarrow> error + (user_points list \<times> int)" where
  "calculateRewards s startDate endDate =
     (case groupRewards s (contributionsBetween s startDate endDate) [] of
        Inl e \<Rightarrow> Inl e
      | Inr userPoints \<Rightarrow>
          (let us = map snd userPoints
           in Inr (us, sum_list (map up_points us))))"

definition createWeeklyReward ::
  "rounding \<Rightarrow> store \<Rightarrow> date \<Rightarrow> date \<Rightarrow> rat \<Rightarrow> error + (weekly_reward \<times> store)" where
  "createWeeklyReward rnd s startDate endDate totalTokens =
     (case calculateRewards s startDate endDate of
        Inl e \<Rightarrow> Inl e
      | Inr (us, totalPts) \<Rightarrow>
          if totalPts = 0 \<or> length us = 0
          then Inl (Error ''No contributions to reward for this period'')
          else (let weeklyReward =
                      \<lparr>wr_id = newId (weeklyRewards s),
                       wr_weekStartDate = startDate,
                       wr_weekEndDate = endDate,
                       wr_totalPoints = totalPts,
                       wr_totalTokens = totalTokens,
                       wr_pointToTokenRatio = rnd (totalTokens / of_int totalPts),
                       wr_distributionTxHash = None,
                       wr_distributedAt = None,
                       wr_status = ''pending''\<rparr>
                in Inr (weeklyReward, s\<lparr>weeklyRewards := weeklyRewards s @ [weeklyReward]\<rparr>)))"

text \<open>
  \<open>processUserReward\<close>. A division by a ratio of zero gives \<open>Infinity\<close> or \<open>NaN\<close>, and
  the quotient of a large amount by a small ratio rounds to an integer outside the range
  of INTEGER: the column \<open>points\<close> refuses the value, \<open>UserReward.create\<close> throws and
  nothing is written. The user id of the route is a string that is not empty.
\<close>

definition processUserReward ::
  "rounding \<Rightarrow> store \<Rightarrow> weekly_reward \<Rightarrow> string \<Rightarrow> rat \<Rightarrow> string
     \<Rightarrow> error + (user_reward \<times> store)" where
  "processUserReward rnd s weeklyReward userId tokens txHash =
     (if wr_pointToTokenRatio weeklyReward = 0
      then Inl (DatabaseError ''invalid input syntax for type integer'')
      else (let points = Math_round (rnd (tokens / wr_pointToTokenRatio weeklyReward))
            in if \<not> fitsINTEGER points
               then Inl (DatabaseError ''value out of range for type integer'')
               else (let userReward =
                           createUserReward (Some userId) (wr_id weeklyReward) points tokens
                             (Some txHash);
                         s1 = s\<lparr>userRewards := userRewards s @ [userReward]\<rparr>
                     in Inr (userReward,
                             updateUsersWhereId userId
                               (\<lambda>u. u\<lparr>u_totalTokensEarned := u_totalTokensEarned u + tokens\<rparr>)
                               s1))))"

text \<open>
  The handler of \<open>POST /distribution-complete\<close>: the HTTP status of the response and
  the store after it. \<open>WeeklyReward.findOne\<close> gives the first row of the window. An
  exception of \<open>weeklyReward.save()\<close> is caught and answered with 500.
\<close>

definition distributionComplete :: "store \<Rightarrow> date \<Rightarrow> date \<Rightarrow> int \<Rightarrow> int \<Rightarrow> nat \<times> store" where
  "distributionComplete s weekStartDate weekEndDate totalUsers successfulTransactions =
     (case find (\<lambda>w. wr_weekStartDate w = weekStartDate \<and> wr_weekEndDate w = weekEndDate)
             (weeklyRewards s) of
        None \<Rightarrow> (404, s)
      | Some weeklyReward \<Rightarrow>
          (case updateWeeklyReward (wr_id weeklyReward)
                  (if successfulTransactions = totalUsers then ''completed'' else ''partial'')
                  (\<lambda>w. w) s of
             Inl e \<Rightarrow> (500, s)
           | Inr s' \<Rightarrow> (200, s')))"

section \<open>Vocabulary of the properties\<close>

text \<open>
  What the bounds below need of a rounding: it is monotone, and it leaves 0, 1, 1.5 and
  2.5 as they are. The rounding of IEEE doubles to the nearest is such a rounding, and so
  is exact arithmetic.
\<close>

definition is_rounding :: "rounding \<Rightarrow> bool" where
  "is_rounding rnd \<longleftrightarrow>
     (\<forall>x y. x \<le> y \<longrightarrow> rnd x \<le> rnd y)
     \<and> rnd 0 = 0 \<and> rnd 1 = 1 \<and> rnd (3 / 2) = 3 / 2 \<and> rnd (5 / 2) = 5 / 2"

text \<open>
  The wallet address that the planner reads first: that of the user of the first fetched
  contribution.
\<close>

definition firstWallet :: "store \<Rightarrow> contribution list \<Rightarrow> string" where
  "firstWallet s cs =
     (case cs of
        [] \<Rightarrow> []
      | c # cs' \<Rightarrow> (case includedUser s c of None \<Rightarrow> [] | Some u \<Rightarrow> u_walletAddress u))"

text \<open>
  What the ledger answers to the planned rewards that have a wallet address, in the order
  of the plan, when \<open>n\<close> attempts were made before: the loop asks the ledger once for each
  of them, with the amount scaled to base units.
\<close>

definition attempts ::
  "(nat \<Rightarrow> string \<Rightarrow> int \<Rightarrow> ledger_outcome) \<Rightarrow> nat \<Rightarrow> user_reward_data list
     \<Rightarrow> (user_reward_data \<times> ledger_outcome) list" where
  "attempts ledger n rewards =
     map (\<lambda>(i, r). (r, ledger i (rd_walletAddress r) (rd_tokenAmount r * 10 ^ TOKEN_DECIMALS)))
         (enumerate n (filter (\<lambda>r. rd_walletAddress r \<noteq> []) rewards))"

fun signatureOf :: "ledger_outcome \<Rightarrow> string option" where
  "signatureOf (confirmed signature) = Some signature"
| "signatureOf invalid_address = None"
| "signatureOf send_rejected = None"
| "signatureOf (confirm_timeout signature) = None"

text \<open>
  The reward row of a planned reward with a transaction reference: its keys to the user
  and to the run are null.
\<close>

definition payoutRecord :: "user_reward_data \<Rightarrow> string option \<Rightarrow> user_reward" where
  "payoutRecord r txHash =
     \<lparr>ur_UserId = None,
      ur_WeeklyRewardId = None,
      ur_points = rd_points r,
      ur_tokens = of_int (rd_tokenAmount r),
      ur_txHash = txHash\<rparr>"

text \<open>
  The reward rows that the loop writes for one attempt: the row with null for a transfer
  that failed; for a confirmed transfer the row with the signature and, when the user
  id of the planned reward is \<open>undefined\<close>, the row with null after it.
\<close>

fun payoutRows :: "user_reward_data \<times> ledger_outcome \<Rightarrow> user_reward list" where
  "payoutRows (r, out) =
     (case signatureOf out of
        None \<Rightarrow> [payoutRecord r None]
      | Some signature \<Rightarrow>
          (case rd_userId r of
             None \<Rightarrow> [payoutRecord r (Some signature), payoutRecord r None]
           | Some uid \<Rightarrow> [payoutRecord r (Some signature)]))"

text \<open>The attempts that the loop counts as successful.\<close>

fun credited :: "user_reward_data \<times> ledger_outcome \<Rightarrow> bool" where
  "credited (r, out) \<longleftrightarrow> signatureOf out \<noteq> None \<and> rd_userId r \<noteq> None"

text \<open>
  A tag row after one pass of \<open>updateTagDemandMultipliers\<close>: it takes the multiplier
  computed from its recent contributions when that differs from its own by more than 0.1.
\<close>

definition recomputed :: "rounding \<Rightarrow> store \<Rightarrow> date \<Rightarrow> tag \<Rightarrow> tag" where
  "recomputed rnd s now t =
     (if abs (rnd (newDemandMultiplier rnd (totalContributionsOfTag s now t) - t_demandMultiplier t))
           > rnd (1 / 10)
      then t\<lparr>t_demandMultiplier := newDemandMultiplier rnd (totalContributionsOfTag s now t)\<rparr>
      else t)"

section \<open>Example data\<close>

text \<open>
  A store with two users, one of them without a wallet address, and one contribution of
  each, keyed to its user: the second is created at the very end of the window from 0
  to 10.
\<close>

definition aliceWallet :: string where
  "aliceWallet = ''vines1vzrYbzLMRdu58ou5XTby4qAqVRLmqo36NKPTg''"

definition alice :: user where
  "alice = \<lparr>u_id = ''u1'', u_walletAddress = aliceWallet, u_username = ''alice'', u_reputation = 1,
             u_totalContributions = 1, u_totalPoints = 100, u_totalTokensEarned = 0,
             u_lastActiveAt = 5\<rparr>"

definition bob :: user where
  "bob = \<lparr>u_id = ''u2'', u_walletAddress = [], u_username = ''bob'', u_reputation = 1,
           u_totalContributions = 1, u_totalPoints = 50, u_totalTokensEarned = 0,
           u_lastActiveAt = 10\<rparr>"

definition exampleContribution :: "string \<Rightarrow> int \<Rightarrow> date \<Rightarrow> contribution" where
  "exampleContribution userId p createdAt =
     \<lparr>c_UserId = Some userId, c_ArticleId = Some ''a1'', c_type = minor_edit, c_basePoints = p,
      c_qualityMultiplier = 1, c_reputationMultiplier = 1, c_demandMultiplier = 1,
      c_totalPoints = p, c_description = None, c_createdAt = createdAt\<rparr>"

definition exampleStore :: store where
  "exampleStore =
     \<lparr>users = [alice, bob], articles = [], tags = [], articleTags = [],
      contributions = [exampleContribution ''u1'' 100 5, exampleContribution ''u2'' 50 10],
      weeklyRewards = [], userRewards = [], ledgerLog = []\<rparr>"

text \<open>
  The one planned reward of the example store for the window from 0 to 10, and its one
  entry of \<open>calculateRewards\<close>: the points of both contributions under the user id
  \<open>undefined\<close>, with the wallet address and the name of the first user.
\<close>

definition mergedReward :: user_reward_data where
  "mergedReward =
     \<lparr>rd_userId = None, rd_walletAddress = aliceWallet, rd_points = 150, rd_tokenAmount = 200000\<rparr>"

definition mergedUsers :: "user_points list" where
  "mergedUsers =
     [\<lparr>up_userId = None, up_walletAddress = aliceWallet, up_username = ''alice'', up_points = 150,
       up_contributionCount = 2\<rparr>]"

text \<open>
  The example store with the contribution of the user without a wallet address alone,
  and its one planned reward.
\<close>

definition walletlessStore :: store where
  "walletlessStore = exampleStore\<lparr>contributions := [exampleContribution ''u2'' 50 10]\<rparr>"

definition walletlessReward :: user_reward_data where
  "walletlessReward =
     \<lparr>rd_userId = None, rd_walletAddress = [], rd_points = 50, rd_tokenAmount = 200000\<rparr>"

text \<open>A ledger that confirms every transfer.\<close>

definition alwaysConfirmed :: "nat \<Rightarrow> string \<Rightarrow> int \<Rightarrow> ledger_outcome" where
  "alwaysConfirmed n w a = confirmed ''sig''"

text \<open>A run of the window from 0 to 10, as \<open>createWeeklyReward\<close> leaves it.\<close>

definition pendingRun :: weekly_reward where
  "pendingRun =
     \<lparr>wr_id = 1, wr_weekStartDate = 0, wr_weekEndDate = 10, wr_totalPoints = 150,
      wr_totalTokens = 300, wr_pointToTokenRatio = 2, wr_distributionTxHash = None,
      wr_distributedAt = None, wr_status = ''pending''\<rparr>"

text \<open>The example store after one and after two runs of the distributor over the window.\<close>

definition afterFirstRun :: store where
  "afterFirstRun = snd (distributeWeeklyRewards exact alwaysConfirmed 11 exampleStore 0 10)"

definition afterSecondRun :: store where
  "afterSecondRun = snd (distributeWeeklyRewards exact alwaysConfirmed 12 afterFirstRun 0 10)"

definition firstResult :: distribution_result where
  "firstResult = fst (distributeWeeklyRewards exact alwaysConfirmed 11 exampleStore 0 10)"

definition secondResult :: distribution_result where
  "secondResult = fst (distributeWeeklyRewards exact alwaysConfirmed 12 afterFirstRun 0 10)"

text \<open>The example store with the pending run.\<close>

definition storeWithRun :: store where
  "storeWithRun = exampleStore\<lparr>weeklyRewards := [pendingRun]\<rparr>"

text \<open>
  Three planned rewards for the loop of the distributor: one without a wallet address
  and two with one.
\<close>

definition threeRewards :: "user_reward_data list" where
  "threeRewards =
     [\<lparr>rd_userId = None, rd_walletAddress = [], rd_points = 50, rd_tokenAmount = 50\<rparr>,
      \<lparr>rd_userId = None, rd_walletAddress = aliceWallet, rd_points = 100, rd_tokenAmount = 100\<rparr>,
      \<lparr>rd_userId = None, rd_walletAddress = ''not a wallet'', rd_points = 30, rd_tokenAmount = 30\<rparr>]"

text \<open>A ledger that confirms a transfer to the wallet of the example and no other.\<close>

definition aliceOnly :: "nat \<Rightarrow> string \<Rightarrow> int \<Rightarrow> ledger_outcome" where
  "aliceOnly n w a = (if w = aliceWallet then confirmed ''sig'' else invalid_address)"

text \<open>The example store after the loop of the distributor over the three rewards.\<close>

definition afterThree :: store where
  "afterThree = snd (snd (fold (processReward aliceOnly 1) threeRewards (0, 0, exampleStore)))"

text \<open>
  A clock, and a store with two tags and two articles, the first article under the
  first tag. The first article has a contribution one day old, one 29 days old and one
  31 days old; the second article has a contribution one day old, and one contribution
  of the same day has no article.
\<close>

definition exampleNow :: date where
  "exampleNow = 1700000000000"

definition oneDay :: int where
  "oneDay = 24 * 60 * 60 * 1000"

definition taggedContribution :: "string option \<Rightarrow> date \<Rightarrow> contribution" where
  "taggedContribution articleId createdAt =
     \<lparr>c_UserId = Some ''u1'', c_ArticleId = articleId, c_type = minor_edit, c_basePoints = 10,
      c_qualityMultiplier = 1, c_reputationMultiplier = 1, c_demandMultiplier = 1,
      c_totalPoints = 10, c_description = None, c_createdAt = createdAt\<rparr>"

definition tagStore :: store where
  "tagStore =
     \<lparr>users = [alice],
      articles = [\<lparr>a_id = ''a1'', a_qualityScore = 1, a_totalRevisions = 1, a_updatedAt = 0\<rparr>,
                  \<lparr>a_id = ''a2'', a_qualityScore = 1, a_totalRevisions = 1, a_updatedAt = 0\<rparr>],
      tags = [\<lparr>t_id = ''t1'', t_name = ''blockchain'', t_demandMultiplier = 2\<rparr>,
              \<lparr>t_id = ''t2'', t_name = ''defi'', t_demandMultiplier = 1\<rparr>],
      articleTags = [(''a1'', ''t1'')],
      contributions = [taggedContribution (Some ''a1'') (exampleNow - oneDay),
                       taggedContribution (Some ''a1'') (exampleNow - 29 * oneDay),
                       taggedContribution (Some ''a1'') (exampleNow - 31 * oneDay),
                       taggedContribution (Some ''a2'') (exampleNow - oneDay),
                       taggedContribution None (exampleNow - oneDay)],
      weeklyRewards = [], userRewards = [], ledgerLog = []\<rparr>"

section \<open>The aggregation window\<close>

lemma map_of_map_set: "map_of (map_set k v m) = (map_of m)(k \<mapsto> v)"
  by (induction m) (auto simp: fun_eq_iff)

lemma sumPoints_map_set:
  "sumPoints (map_set k (p, w) m) =
     sumPoints m + p - (case map_of m k of None \<Rightarrow> 0 | Some (p0, w0) \<Rightarrow> p0)"
  by (induction m) (auto simp: sumPoints_def split: option.splits)

lemma groupByUser_sum:
  "groupByUser s cs m = Inr m' \<Longrightarrow> sumPoints m' = sumPoints m + sum_list (map c_totalPoints cs)"
proof (induction cs arbitrary: m)
  case Nil
  then show ?case by simp
next
  case (Cons c cs)
  then show ?case
    by (auto simp: Let_def sumPoints_map_set map_of_map_set split: option.splits if_splits)
qed

lemma groupByUser_total:
  "list_all (\<lambda>c. includedUser s c \<noteq> None) cs \<Longrightarrow> \<exists>m'. groupByUser s cs m = Inr m'"
proof (induction cs arbitrary: m)
  case Nil
  then show ?case by simp
next
  case (Cons c cs)
  then show ?case
    by (auto simp: Let_def map_of_map_set split: option.splits if_splits)
qed

text \<open>
  Every contribution has the key \<open>undefined\<close>, so the map of the planner never holds
  more than the one entry of that key: the points of all, and the wallet address read
  first.
\<close>

lemma groupByUser_merged:
  "groupByUser s cs [(None, p, w)] = Inr m \<Longrightarrow> m = [(None, p + sum_list (map c_totalPoints cs), w)]"
proof (induction cs arbitrary: p m)
  case Nil
  then show ?case by simp
next
  case (Cons c cs)
  from Cons.prems obtain u where u: "includedUser s c = Some u"
    by (cases "includedUser s c") auto
  with Cons.prems have "groupByUser s cs [(None, p + c_totalPoints c, w)] = Inr m"
    by (simp add: contribution_userId_def)
  from Cons.IH [OF this] show ?case by simp
qed

lemma groupByUser_first:
  assumes "groupByUser s (c # cs) [] = Inr m"
  shows "m = [(None, sum_list (map c_totalPoints (c # cs)), firstWallet s (c # cs))]"
proof -
  from assms obtain u where u: "includedUser s c = Some u"
    by (cases "includedUser s c") auto
  with assms have "groupByUser s cs [(None, c_totalPoints c, u_walletAddress u)] = Inr m"
    by (simp add: contribution_userId_def)
  from groupByUser_merged [OF this] u show ?thesis
    by (simp add: firstWallet_def)
qed

lemma calculateWeeklyRewards_plan:
  assumes "calculateWeeklyRewards rnd s startDate endDate = Inr plan"
  shows "plan =
    (if sum_list (map c_totalPoints (contributionsBetween s startDate endDate)) = 0 then []
     else [\<lparr>rd_userId = None,
            rd_walletAddress = firstWallet s (contributionsBetween s startDate endDate),
            rd_points = sum_list (map c_totalPoints (contributionsBetween s startDate endDate)),
            rd_tokenAmount =
              max \<lfloor>rnd (of_int (sum_list (map c_totalPoints (contributionsBetween s startDate endDate)))
                         * rnd (WEEKLY_REWARD_POOL /
                             of_int (sum_list (map c_totalPoints (contributionsBetween s startDate endDate)))))\<rfloor>
                  MIN_TOKENS_PER_USER\<rparr>])"
proof -
  let ?W = "contributionsBetween s startDate endDate"
  from assms obtain m where m: "groupByUser s ?W [] = Inr m"
    by (auto simp: calculateWeeklyRewards_def split: sum.splits)
  have tot: "sumPoints m = sum_list (map c_totalPoints ?W)"
    using groupByUser_sum [OF m] by (simp add: sumPoints_def)
  show ?thesis
  proof (cases "sum_list (map c_totalPoints ?W) = 0")
    case True
    with assms m tot show ?thesis by (simp add: calculateWeeklyRewards_def)
  next
    case False
    then obtain c cs where W: "?W = c # cs"
      by (cases ?W) auto
    from m W groupByUser_first [of s c cs m]
    have "m = [(None, sum_list (map c_totalPoints ?W), firstWallet s ?W)]"
      by simp
    with assms m False tot show ?thesis
      by (simp add: calculateWeeklyRewards_def Let_def Math_floor_def sumPoints_def)
  qed
qed

lemma calculateWeeklyRewards_userId:
  assumes "calculateWeeklyRewards rnd s startDate endDate = Inr plan" and "r \<in> set plan"
  shows "rd_userId r = None"
  using calculateWeeklyRewards_plan [OF assms(1)] assms(2) by (auto split: if_splits)

lemma up_sum_map_set:
  "sum_list (map (\<lambda>a. up_points (snd a)) (map_set k r m)) =
     sum_list (map (\<lambda>a. up_points (snd a)) m) + up_points r
       - (case map_of m k of None \<Rightarrow> 0 | Some r0 \<Rightarrow> up_points r0)"
  by (induction m) (auto split: option.splits)

lemma groupRewards_sum:
  "groupRewards s cs m = Inr m' \<Longrightarrow>
     sum_list (map (\<lambda>a. up_points (snd a)) m') =
       sum_list (map (\<lambda>a. up_points (snd a)) m) + sum_list (map c_totalPoints cs)"
proof (induction cs arbitrary: m)
  case Nil
  then show ?case by simp
next
  case (Cons c cs)
  then show ?case
    by (auto simp: Let_def up_sum_map_set map_of_map_set split: option.splits if_splits sum.splits)
qed

lemma groupRewards_total:
  "list_all (\<lambda>c. includedUser s c \<noteq> None) cs \<Longrightarrow> \<exists>m'. groupRewards s cs m = Inr m'"
proof (induction cs arbitrary: m)
  case Nil
  then show ?case by simp
next
  case (Cons c cs)
  then show ?case
    by (auto simp: Let_def map_of_map_set split: option.splits if_splits sum.splits)
qed

lemma calculateWeeklyRewards_points:
  assumes "calculateWeeklyRewards rnd s startDate endDate = Inr plan"
  shows "sum_list (map rd_points plan) =
           sum_list (map c_totalPoints (contributionsBetween s startDate endDate))"
  using calculateWeeklyRewards_plan [OF assms] by (simp split: if_splits)

lemma calculateRewards_points:
  assumes "calculateRewards s startDate endDate = Inr (us, totalPts)"
  shows "totalPts = sum_list (map c_totalPoints (contributionsBetween s startDate endDate))"
proof -
  from assms obtain m where m: "groupRewards s (contributionsBetween s startDate endDate) [] = Inr m"
    by (auto simp: calculateRewards_def split: sum.splits)
  with assms have "totalPts = sum_list (map (\<lambda>a. up_points (snd a)) m)"
    by (auto simp: calculateRewards_def Let_def o_def)
  with groupRewards_sum [OF m] show ?thesis by simp
qed

lemma examplePlan: "calculateWeeklyRewards exact exampleStore 0 10 = Inr [mergedReward]"
  by code_simp

lemma exampleRewards: "calculateRewards exampleStore 0 10 = Inr (mergedUsers, 150)"
  by code_simp

text \<open>
  C7, as amended. The window of the aggregation is closed at both ends: the query of
  \<open>calculateRewards\<close> and of \<open>calculateWeeklyRewards\<close> fetches exactly the contributions
  with \<open>startDate \<le> createdAt \<le> endDate\<close>, so a contribution created at \<open>endDate\<close> is
  included, and the total points of \<open>calculateRewards\<close> and the points of the plan of
  \<open>calculateWeeklyRewards\<close> add up the points of exactly these contributions.
\<close>

theorem aggregation_window_closed:
  "(c \<in> set (contributionsBetween s startDate endDate) \<longleftrightarrow>
      c \<in> set (contributions s) \<and> startDate \<le> c_createdAt c \<and> c_createdAt c \<le> endDate)
   \<and> (calculateRewards s startDate endDate = Inr (us, totalPts) \<longrightarrow>
        totalPts = sum_list (map c_totalPoints
          (filter (\<lambda>c. startDate \<le> c_createdAt c \<and> c_createdAt c \<le> endDate) (contributions s))))
   \<and> (calculateWeeklyRewards rnd s startDate endDate = Inr plan \<longrightarrow>
        sum_list (map rd_points plan) = sum_list (map c_totalPoints
          (filter (\<lambda>c. startDate \<le> c_createdAt c \<and> c_createdAt c \<le> endDate) (contributions s))))"
proof (intro conjI impI)
  show "c \<in> set (contributionsBetween s startDate endDate) \<longleftrightarrow>
      c \<in> set (contributions s) \<and> startDate \<le> c_createdAt c \<and> c_createdAt c \<le> endDate"
    by (auto simp: contributionsBetween_def)
next
  assume "calculateRewards s startDate endDate = Inr (us, totalPts)"
  from calculateRewards_points [OF this]
  show "totalPts = sum_list (map c_totalPoints
          (filter (\<lambda>c. startDate \<le> c_createdAt c \<and> c_createdAt c \<le> endDate) (contributions s)))"
    by (simp add: contributionsBetween_def)
next
  assume "calculateWeeklyRewards rnd s startDate endDate = Inr plan"
  from calculateWeeklyRewards_points [OF this]
  show "sum_list (map rd_points plan) = sum_list (map c_totalPoints
          (filter (\<lambda>c. startDate \<le> c_createdAt c \<and> c_createdAt c \<le> endDate) (contributions s)))"
    by (simp add: contributionsBetween_def)
qed

theorem aggregation_window_closed_witness:
  "calculateRewards exampleStore 0 10 = Inr (mergedUsers, 150)
   \<and> calculateWeeklyRewards exact exampleStore 0 10 = Inr [mergedReward]
   \<and> (150::int) = sum_list (map c_totalPoints
        (filter (\<lambda>c. 0 \<le> c_createdAt c \<and> c_createdAt c \<le> 10) (contributions exampleStore)))
   \<and> sum_list (map rd_points [mergedReward]) = sum_list (map c_totalPoints
        (filter (\<lambda>c. 0 \<le> c_createdAt c \<and> c_createdAt c \<le> 10) (contributions exampleStore)))"
  using aggregation_window_closed
          [where c = "exampleContribution ''u2'' 50 10" and s = exampleStore and startDate = 0
             and endDate = 10 and us = mergedUsers and totalPts = 150 and rnd = exact
             and plan = "[mergedReward]"]
        exampleRewards examplePlan
  by blast

text \<open>
  The claim C7 as it stands (the window is half-open, a contribution created at the end
  date is excluded) fails: the contribution of the example store created at 10 is
  fetched for the window from 0 to 10, and its 50 points are in the totals.
\<close>

theorem aggregation_window_counterexample:
  "c_createdAt (exampleContribution ''u2'' 50 10) = 10
   \<and> exampleContribution ''u2'' 50 10 \<in> set (contributionsBetween exampleStore 0 10)
   \<and> calculateRewards exampleStore 0 10 = Inr (mergedUsers, 150)"
  by code_simp

section \<open>The planner\<close>



section \<open>A window with no points\<close>

text \<open>
  C3, as amended. For every window whose contributions all have their user and whose
  aggregated total points are 0: \<open>calculateWeeklyRewards\<close> returns the empty plan, and
  \<open>distributeWeeklyRewards\<close> returns a successful result with no users and no error
  message and leaves the store as it is, so no run is created. \<open>createWeeklyReward\<close>
  creates no run either, but it does treat the window as a failure: it throws the error
  "No contributions to reward for this period".
\<close>

theorem zero_points:
  assumes "list_all (\<lambda>c. includedUser s c \<noteq> None)
             (contributionsBetween s startDate endDate)"
    and "sum_list (map c_totalPoints (contributionsBetween s startDate endDate)) = 0"
  shows "calculateWeeklyRewards rnd s startDate endDate = Inr []
       \<and> distributeWeeklyRewards rnd ledger now s startDate endDate =
           (\<lparr>res_success = True, res_totalUsers = 0, res_totalTokens = 0, res_totalPoints = 0,
             res_weekStartDate = startDate, res_weekEndDate = endDate,
             res_successfulTransactions = 0, res_failedTransactions = 0,
             res_errorMessage = None\<rparr>, s)
       \<and> createWeeklyReward rnd s startDate endDate totalTokens =
           Inl (Error ''No contributions to reward for this period'')"
proof -
  from groupByUser_total [OF assms(1)] obtain m
    where m: "groupByUser s (contributionsBetween s startDate endDate) [] = Inr m" by blast
  from groupByUser_sum [OF m] assms(2) have "sumPoints m = 0" by (simp add: sumPoints_def)
  with m have c: "calculateWeeklyRewards rnd s startDate endDate = Inr []"
    by (simp add: calculateWeeklyRewards_def)
  from groupRewards_total [OF assms(1)] obtain m'
    where m': "groupRewards s (contributionsBetween s startDate endDate) [] = Inr m'" by blast
  from groupRewards_sum [OF m'] assms(2) have "sum_list (map (\<lambda>a. up_points (snd a)) m') = 0"
    by simp
  with m' have "createWeeklyReward rnd s startDate endDate totalTokens =
           Inl (Error ''No contributions to reward for this period'')"
    by (simp add: createWeeklyReward_def calculateRewards_def Let_def o_def)
  with c show ?thesis by (simp add: distributeWeeklyRewards_def)
qed

theorem zero_points_witness:
  "list_all (\<lambda>c. includedUser exampleStore c \<noteq> None)
     (contributionsBetween exampleStore 20 30)
   \<and> sum_list (map c_totalPoints (contributionsBetween exampleStore 20 30)) = 0
   \<and> calculateWeeklyRewards exact exampleStore 20 30 = Inr []
   \<and> distributeWeeklyRewards exact alwaysConfirmed 31 exampleStore 20 30 =
           (\<lparr>res_success = True, res_totalUsers = 0, res_totalTokens = 0, res_totalPoints = 0,
             res_weekStartDate = 20, res_weekEndDate = 30,
             res_successfulTransactions = 0, res_failedTransactions = 0,
             res_errorMessage = None\<rparr>, exampleStore)
   \<and> createWeeklyReward exact exampleStore 20 30 1000 =
           Inl (Error ''No contributions to reward for this period'')"
proof -
  have h1: "list_all (\<lambda>c. includedUser exampleStore c \<noteq> None)
     (contributionsBetween exampleStore 20 30)"
    by code_simp
  have h2: "sum_list (map c_totalPoints (contributionsBetween exampleStore 20 30)) = 0"
    by code_simp
  from zero_points [OF h1 h2, where rnd = exact and ledger = alwaysConfirmed and now = 31
                      and totalTokens = 1000] h1 h2
  show ?thesis
    by blast
qed

text \<open>
  The claim C3 as it stands (no error is raised for a window with no points) fails on
  \<open>createWeeklyReward\<close>: for the window from 20 to 30 of the example store, which has no
  contribution, it throws.
\<close>

theorem zero_points_counterexample:
  "sum_list (map c_totalPoints (contributionsBetween exampleStore 20 30)) = 0
   \<and> createWeeklyReward exact exampleStore 20 30 1000 =
       Inl (Error ''No contributions to reward for this period'')"
  by code_simp

section \<open>Scoring\<close>

text \<open>
  C6. The contribution that \<open>recordContribution\<close> stores has as its total points the
  floor of the product of its four stored factors, base points, quality, reputation and
  demand multiplier, taken from the left, each product rounded to a double as the code
  computes it; the floor is taken once, of the whole product, and of no factor. The same
  holds of the points data of \<open>calculatePoints\<close>.
\<close>

theorem scoring_formula:
  "(case recordContribution rnd s now random1 random2 userId articleId contributionType
           description tagNames of
      (c, s') \<Rightarrow>
        c_totalPoints c =
          \<lfloor>rnd (rnd (rnd (of_int (c_basePoints c) * c_qualityMultiplier c)
                       * c_reputationMultiplier c)
                  * c_demandMultiplier c)\<rfloor>
        \<and> contributions s' = contributions s @ [c])
   \<and> (case calculatePoints rnd s random1 random2 contributionType userId aid tagNames of
        pointsData \<Rightarrow>
          pd_totalPoints pointsData =
            \<lfloor>rnd (rnd (rnd (of_int (pd_basePoints pointsData) * pd_qualityMultiplier pointsData)
                         * pd_reputationMultiplier pointsData)
                    * pd_demandMultiplier pointsData)\<rfloor>)"
  by (simp add: recordContribution_def calculatePoints_def createContribution_def Let_def
        Math_floor_def updateUsersWhereId_def updateArticlesWhereId_def split: prod.splits)

text \<open>In exact arithmetic the total is the floor of the product of the four factors.\<close>

lemma scoring_exact:
  "(case recordContribution exact s now random1 random2 userId articleId contributionType
           description tagNames of
      (c, s') \<Rightarrow>
        c_totalPoints c =
          \<lfloor>of_int (c_basePoints c) * c_qualityMultiplier c * c_reputationMultiplier c
             * c_demandMultiplier c\<rfloor>)"
  by (simp add: recordContribution_def calculatePoints_def createContribution_def Let_def
        Math_floor_def exact_def updateUsersWhereId_def updateArticlesWhereId_def
        split: prod.splits)

text \<open>
  Flooring once is not flooring each factor: a minor edit with base points 5 and
  quality and reputation 1.5 scores \<open>floor(11.25) = 11\<close>, where flooring after each
  factor would give 10.
\<close>

lemma scoring_floor_once_example:
  "pd_totalPoints (calculatePoints exact (exampleStore\<lparr>users := [alice\<lparr>u_reputation := 3 / 2\<rparr>]\<rparr>)
      0 (2 / 5) minor_edit ''u1'' None None) = 11
   \<and> \<lfloor>of_int \<lfloor>of_int \<lfloor>(5::rat) * (3 / 2)\<rfloor> * (3 / 2 :: rat)\<rfloor> * (1::rat)\<rfloor> = 10"
  by code_simp

text \<open>
  The row that \<open>recordContribution\<close> stores is keyed to no user and to no article.
\<close>

lemma recordContribution_keys:
  "c_UserId (fst (recordContribution rnd s now random1 random2 userId articleId contributionType
                    description tagNames)) = None
   \<and> c_ArticleId (fst (recordContribution rnd s now random1 random2 userId articleId
                        contributionType description tagNames)) = None"
  by (simp add: recordContribution_def createContribution_def Let_def split: prod.splits)

section \<open>Reputation\<close>

lemma is_rounding_exact: "is_rounding exact"
  by (simp add: is_rounding_def exact_def)

lemma reduceSum_exact_from: "fold (\<lambda>x acc. exact (acc + x)) xs a = a + sum_list xs"
  by (induction xs arbitrary: a) (simp_all add: exact_def)

lemma reduceSum_exact: "reduceSum exact xs = sum_list xs"
  by (simp add: reduceSum_def reduceSum_exact_from)

text \<open>
  The arithmetic of \<open>updateUserReputation\<close>: whatever the mean quality, the clamped
  value lies between the double 0.8 and 1.5, and in exact arithmetic it is the clamped
  linear map of the mean from [0.5, 3.0] to [0.8, 1.5].
\<close>

lemma newReputation_bounds:
  assumes "is_rounding rnd"
  shows "rnd (4 / 5) \<le> newReputation rnd q \<and> newReputation rnd q \<le> 3 / 2"
proof -
  from assms have mono: "\<And>x y. x \<le> y \<Longrightarrow> rnd x \<le> rnd y"
    by (simp add: is_rounding_def)
  from assms have fx: "rnd (3 / 2) = 3 / 2"
    by (simp add: is_rounding_def)
  have "rnd (4 / 5) \<le> rnd (3 / 2)"
    by (rule mono) simp
  then have "rnd (4 / 5) \<le> 3 / 2"
    unfolding fx .
  then show ?thesis
    by (simp add: newReputation_def)
qed

lemma newReputation_exact:
  "newReputation exact (avgQuality exact cs) =
     max (4 / 5) (min (3 / 2)
       (4 / 5 + (sum_list (map c_qualityMultiplier cs) / of_nat (length cs) - 1 / 2)
                * ((3 / 2 - 4 / 5) / (3 - 1 / 2))))"
  by (simp add: newReputation_def baseReputation_def avgQuality_def stakingBoost_def
        reduceSum_exact) (simp add: exact_def)

text \<open>
  C8. The claim fails on the code, by a slip of the query. \<open>updateUserReputation\<close>
  asks for the contributions \<open>where: { userId }\<close>, and the table of the contributions
  has no column \<open>userId\<close>: its key to the user is \<open>UserId\<close>. The database refuses the
  query, so for every store and every user the function throws at its first statement:
  it returns neither the rescaled mean nor 1.0, and it writes nothing. For the user
  \<open>u1\<close> of the example store, who has one contribution of quality 1.0, the arithmetic
  of the function would give 0.94; for the user \<open>u9\<close>, who has none, the claim gives
  1.0.
\<close>

theorem reputation_update_throws:
  "updateUserReputation rnd s userId =
     Inl (DatabaseError ''column Contribution.userId does not exist'')
   \<and> updateUserReputation exact exampleStore ''u1'' =
       Inl (DatabaseError ''column Contribution.userId does not exist'')
   \<and> filter (\<lambda>c. c_UserId c = Some ''u1'') (contributions exampleStore) =
       [exampleContribution ''u1'' 100 5]
   \<and> newReputation exact (avgQuality exact [exampleContribution ''u1'' 100 5]) = 47 / 50
   \<and> updateUserReputation exact exampleStore ''u9'' =
       Inl (DatabaseError ''column Contribution.userId does not exist'')
   \<and> filter (\<lambda>c. c_UserId c = Some ''u9'') (contributions exampleStore) = []"
proof (intro conjI)
  show "updateUserReputation rnd s userId =
     Inl (DatabaseError ''column Contribution.userId does not exist'')"
    by (simp add: updateUserReputation_def recentContributionsOf_def
          findAllContributionsWhere_def contributionColumns_def)
  show "updateUserReputation exact exampleStore ''u1'' =
       Inl (DatabaseError ''column Contribution.userId does not exist'')"
    by code_simp
  show "filter (\<lambda>c. c_UserId c = Some ''u1'') (contributions exampleStore) =
       [exampleContribution ''u1'' 100 5]"
    by code_simp
  show "newReputation exact (avgQuality exact [exampleContribution ''u1'' 100 5]) = 47 / 50"
    by code_simp
  show "updateUserReputation exact exampleStore ''u9'' =
       Inl (DatabaseError ''column Contribution.userId does not exist'')"
    by code_simp
  show "filter (\<lambda>c. c_UserId c = Some ''u9'') (contributions exampleStore) = []"
    by code_simp
qed

section \<open>Demand\<close>

lemma newDemandMultiplier_bounds:
  assumes "is_rounding rnd"
  shows "1 \<le> newDemandMultiplier rnd n \<and> newDemandMultiplier rnd n \<le> 5 / 2"
proof (cases "n > 0")
  case False
  then show ?thesis by (simp add: newDemandMultiplier_def)
next
  case True
  from assms have mono: "\<And>x y. x \<le> y \<Longrightarrow> rnd x \<le> rnd y"
    and fx: "rnd 0 = 0" "rnd 1 = 1" "rnd (5 / 2) = 5 / 2"
    by (simp_all add: is_rounding_def)
  have "rnd 0 \<le> rnd (of_nat n / 10)"
    by (rule mono) simp
  then have nonneg: "0 \<le> min (3 / 2) (rnd (of_nat n / 10))"
    unfolding fx by simp
  have "rnd 1 \<le> rnd (1 + min (3 / 2) (rnd (of_nat n / 10)))"
    by (rule mono) (use nonneg in simp)
  moreover have "rnd (1 + min (3 / 2) (rnd (of_nat n / 10))) \<le> rnd (5 / 2)"
    by (rule mono) simp
  ultimately have "1 \<le> rnd (1 + min (3 / 2) (rnd (of_nat n / 10)))"
    and "rnd (1 + min (3 / 2) (rnd (of_nat n / 10))) \<le> 5 / 2"
    unfolding fx by simp_all
  with True show ?thesis
    by (simp add: newDemandMultiplier_def)
qed

lemma find_own_row:
  "distinct (map f xs) \<Longrightarrow> x \<in> set xs \<Longrightarrow> find (\<lambda>y. f y = f x) xs = Some x"
  by (induction xs) (auto simp: image_iff)

lemma fold_updateTag:
  assumes "distinct (map t_id ts)"
  shows "tags (snd (fold (\<lambda>t acc. updateTag rnd t (cnt t) acc) ts (n, st))) =
           map (\<lambda>r. case find (\<lambda>t. t_id t = t_id r) ts of
                      None \<Rightarrow> r
                    | Some t \<Rightarrow>
                        if abs (rnd (newDemandMultiplier rnd (cnt t) - t_demandMultiplier t)) > rnd (1 / 10)
                        then r\<lparr>t_demandMultiplier := newDemandMultiplier rnd (cnt t)\<rparr> else r)
               (tags st)
       \<and> fst (fold (\<lambda>t acc. updateTag rnd t (cnt t) acc) ts (n, st)) =
           n + length (filter (\<lambda>t. abs (rnd (newDemandMultiplier rnd (cnt t) - t_demandMultiplier t)) > rnd (1 / 10)) ts)"
  using assms
proof (induction ts arbitrary: n st)
  case Nil
  show ?case by simp
next
  case (Cons t ts)
  from Cons.prems have d: "distinct (map t_id ts)" and nin: "t_id t \<notin> t_id ` set ts"
    by simp_all
  have none: "\<And>r. t_id r = t_id t \<Longrightarrow> find (\<lambda>x. t_id x = t_id r) ts = None"
  proof -
    fix r
    assume "t_id r = t_id t"
    with nin have "\<forall>x \<in> set ts. t_id x \<noteq> t_id r"
      by (metis imageI)
    then show "find (\<lambda>x. t_id x = t_id r) ts = None"
      by (simp add: find_None_iff)
  qed
  show ?case
  proof (cases "abs (rnd (newDemandMultiplier rnd (cnt t) - t_demandMultiplier t)) > rnd (1 / 10)")
    case True
    let ?st1 = "st\<lparr>tags := map (\<lambda>r. if t_id r = t_id t
                    then r\<lparr>t_demandMultiplier := newDemandMultiplier rnd (cnt t)\<rparr> else r) (tags st)\<rparr>"
    from True have step: "updateTag rnd t (cnt t) (n, st) = (n + 1, ?st1)"
      by (simp add: updateTag_def Let_def)
    from Cons.IH [OF d, of "n + 1" ?st1] step True show ?thesis
      by (auto simp: none)
  next
    case False
    then have step: "updateTag rnd t (cnt t) (n, st) = (n, st)"
      by (simp add: updateTag_def Let_def)
    from Cons.IH [OF d, of n st] step False show ?thesis
      by (auto simp: none)
  qed
qed

lemma updateTagDemandMultipliers_tags:
  assumes "distinct (map t_id (tags s))"
  shows "tags (snd (updateTagDemandMultipliers rnd s now)) = map (recomputed rnd s now) (tags s)"
    and "fst (updateTagDemandMultipliers rnd s now) =
           length (filter (\<lambda>t. abs (rnd (newDemandMultiplier rnd (totalContributionsOfTag s now t)
                                            - t_demandMultiplier t)) > rnd (1 / 10)) (tags s))"
proof -
  note F = fold_updateTag [OF assms, of rnd "totalContributionsOfTag s now" 0 s]
  have own: "\<And>r. r \<in> set (tags s) \<Longrightarrow> find (\<lambda>t. t_id t = t_id r) (tags s) = Some r"
    using find_own_row [OF assms] by simp
  from F have "tags (snd (updateTagDemandMultipliers rnd s now)) =
      map (\<lambda>r. case find (\<lambda>t. t_id t = t_id r) (tags s) of
                      None \<Rightarrow> r
                    | Some t \<Rightarrow>
                        if abs (rnd (newDemandMultiplier rnd (totalContributionsOfTag s now t)
                                      - t_demandMultiplier t)) > rnd (1 / 10)
                        then r\<lparr>t_demandMultiplier :=
                                 newDemandMultiplier rnd (totalContributionsOfTag s now t)\<rparr>
                        else r)
               (tags s)"
    by (simp add: updateTagDemandMultipliers_def)
  also have "\<dots> = map (recomputed rnd s now) (tags s)"
    by (rule map_cong) (simp_all add: own recomputed_def)
  finally show "tags (snd (updateTagDemandMultipliers rnd s now)) = map (recomputed rnd s now) (tags s)" .
  from F show "fst (updateTagDemandMultipliers rnd s now) =
           length (filter (\<lambda>t. abs (rnd (newDemandMultiplier rnd (totalContributionsOfTag s now t)
                                            - t_demandMultiplier t)) > rnd (1 / 10)) (tags s))"
    by (simp add: updateTagDemandMultipliers_def)
qed

text \<open>
  The count of the loop, article by article, is the number of the contributions that
  are keyed to an article of the tag: the ids of the articles are distinct, so no
  contribution is counted twice.
\<close>

lemma length_filter_disj:
  "(\<And>x. \<not> (A x \<and> B x)) \<Longrightarrow>
     length (filter (\<lambda>x. A x \<or> B x) xs) = length (filter A xs) + length (filter B xs)"
  by (induction xs) auto

lemma count_by_article:
  assumes "distinct (map a_id as)"
  shows "sum_list (map (\<lambda>a. length (filter (\<lambda>c. c_ArticleId c = Some (a_id a) \<and> Q c) cs))
                       (filter P as)) =
         length (filter (\<lambda>c. Q c \<and> list_ex (\<lambda>a. P a \<and> c_ArticleId c = Some (a_id a)) as) cs)"
  using assms
proof (induction as)
  case Nil
  show ?case by simp
next
  case (Cons a as)
  from Cons.prems have d: "distinct (map a_id as)" and nin: "a_id a \<notin> a_id ` set as"
    by simp_all
  let ?A = "\<lambda>c. Q c \<and> P a \<and> c_ArticleId c = Some (a_id a)"
  let ?B = "\<lambda>c. Q c \<and> list_ex (\<lambda>a. P a \<and> c_ArticleId c = Some (a_id a)) as"
  have excl: "\<And>c. \<not> (?A c \<and> ?B c)"
    using nin by (auto simp: list_ex_iff)
  have "length (filter (\<lambda>c. Q c \<and> list_ex (\<lambda>a. P a \<and> c_ArticleId c = Some (a_id a)) (a # as)) cs) =
        length (filter (\<lambda>c. ?A c \<or> ?B c) cs)"
    by (rule arg_cong [where f = length], rule filter_cong) auto
  also have "\<dots> = length (filter ?A cs) + length (filter ?B cs)"
    by (rule length_filter_disj) (rule excl)
  finally have split: "length (filter (\<lambda>c. Q c \<and> list_ex (\<lambda>a. P a \<and> c_ArticleId c = Some (a_id a)) (a # as)) cs) =
        length (filter ?A cs) + length (filter ?B cs)" .
  have A: "length (filter ?A cs) =
           (if P a then length (filter (\<lambda>c. c_ArticleId c = Some (a_id a) \<and> Q c) cs) else 0)"
    by (cases "P a") (auto intro: arg_cong [where f = length] filter_cong)
  from Cons.IH [OF d] split A show ?case
    by simp
qed

lemma totalContributionsOfTag_count:
  assumes "distinct (map a_id (articles s))"
  shows "totalContributionsOfTag s now t =
           length (filter (\<lambda>c. now - 2592000000 \<le> c_createdAt c
                              \<and> list_ex (\<lambda>a. (a_id a, t_id t) \<in> set (articleTags s)
                                              \<and> c_ArticleId c = Some (a_id a)) (articles s))
                     (contributions s))"
  using count_by_article [OF assms, of "\<lambda>c. now - 2592000000 \<le> c_createdAt c" "contributions s"
          "\<lambda>a. (a_id a, t_id t) \<in> set (articleTags s)"]
  by (simp add: totalContributionsOfTag_def recentArticleContributions_def tagArticles_def
        THIRTY_DAYS_def)

text \<open>
  C9. The count \<open>n\<close> from which \<open>updateTagDemandMultipliers\<close> computes the demand
  multiplier of a tag is the number of the contributions created in the last 30 days
  (at or after the clock less 2592000000 milliseconds) and keyed to an article that
  the junction table puts under the tag. The multiplier is 1.0 when \<open>n = 0\<close> and
  \<open>1.0 + min(1.5, n / 10)\<close> when \<open>n > 0\<close>, the quotient and the sum rounded to doubles as
  the code computes them; under every rounding it lies in [1.0, 2.5]. When the ids of
  the tags are distinct, the pass leaves every tag with this multiplier or, where it is
  within 0.1 of it, with the multiplier it had.
\<close>

theorem demand_formula:
  "(distinct (map a_id (articles s)) \<longrightarrow>
      totalContributionsOfTag s now t =
        length (filter (\<lambda>c. now - 2592000000 \<le> c_createdAt c
                           \<and> list_ex (\<lambda>a. (a_id a, t_id t) \<in> set (articleTags s)
                                           \<and> c_ArticleId c = Some (a_id a)) (articles s))
                  (contributions s)))
   \<and> newDemandMultiplier rnd (totalContributionsOfTag s now t) =
     (if totalContributionsOfTag s now t = 0 then 1
      else rnd (1 + min (3 / 2) (rnd (of_nat (totalContributionsOfTag s now t) / 10))))
   \<and> newDemandMultiplier exact (totalContributionsOfTag s now t) =
     (if totalContributionsOfTag s now t = 0 then 1
      else 1 + min (3 / 2) (of_nat (totalContributionsOfTag s now t) / 10))
   \<and> (is_rounding rnd \<longrightarrow>
        1 \<le> newDemandMultiplier rnd (totalContributionsOfTag s now t)
        \<and> newDemandMultiplier rnd (totalContributionsOfTag s now t) \<le> 5 / 2)
   \<and> (distinct (map t_id (tags s)) \<longrightarrow>
        tags (snd (updateTagDemandMultipliers rnd s now)) = map (recomputed rnd s now) (tags s))"
  using updateTagDemandMultipliers_tags(1) [of s rnd now]
    newDemandMultiplier_bounds [of rnd "totalContributionsOfTag s now t"]
    totalContributionsOfTag_count [of s now t]
  by (simp add: newDemandMultiplier_def exact_def)

theorem demand_formula_witness:
  "distinct (map a_id (articles tagStore))
   \<and> totalContributionsOfTag tagStore exampleNow (hd (tags tagStore)) =
        length (filter (\<lambda>c. exampleNow - 2592000000 \<le> c_createdAt c
                           \<and> list_ex (\<lambda>a. (a_id a, t_id (hd (tags tagStore))) \<in> set (articleTags tagStore)
                                           \<and> c_ArticleId c = Some (a_id a)) (articles tagStore))
                  (contributions tagStore))
   \<and> is_rounding exact
   \<and> 1 \<le> newDemandMultiplier exact (totalContributionsOfTag tagStore exampleNow (hd (tags tagStore)))
   \<and> newDemandMultiplier exact (totalContributionsOfTag tagStore exampleNow (hd (tags tagStore)))
       \<le> 5 / 2
   \<and> distinct (map t_id (tags tagStore))
   \<and> tags (snd (updateTagDemandMultipliers exact tagStore exampleNow)) =
       map (recomputed exact tagStore exampleNow) (tags tagStore)
   \<and> map (totalContributionsOfTag tagStore exampleNow) (tags tagStore) = [2, 0]
   \<and> map t_demandMultiplier (tags (snd (updateTagDemandMultipliers exact tagStore exampleNow))) =
       [6 / 5, 1]"
proof -
  have a: "distinct (map a_id (articles tagStore))"
    by code_simp
  have h: "distinct (map t_id (tags tagStore))"
    by code_simp
  have v1: "map (totalContributionsOfTag tagStore exampleNow) (tags tagStore) = [2, 0]"
    by code_simp
  have v2: "map t_demandMultiplier (tags (snd (updateTagDemandMultipliers exact tagStore exampleNow))) =
       [6 / 5, 1]"
    by code_simp
  from demand_formula [of tagStore exampleNow "hd (tags tagStore)" exact]
       is_rounding_exact a h v1 v2
  show ?thesis
    by blast
qed

section \<open>Confirmed payouts\<close>

text \<open>
  C10. For a run whose ratio is not zero, \<open>processUserReward\<close> computes the points
  \<open>Math.round(tokens / pointToTokenRatio)\<close>, the quotient (a double) rounded half up to
  an integer. When they fit the INTEGER column it appends a reward row with these
  points: they come from the confirmed token amount and the ratio of the run alone, and
  the row is the same whatever the store holds, so they are not read from the
  contributions of the window. The keys of the row to the user and to the run are null.
  When the points do not fit the column, the row is refused and nothing is persisted.
\<close>

theorem confirmed_points:
  assumes "wr_pointToTokenRatio weeklyReward \<noteq> 0"
  shows "(fitsINTEGER \<lfloor>rnd (tokens / wr_pointToTokenRatio weeklyReward) + 1 / 2\<rfloor> \<longrightarrow>
           (\<exists>userReward s'.
              processUserReward rnd s weeklyReward userId tokens txHash = Inr (userReward, s')
            \<and> ur_points userReward = \<lfloor>rnd (tokens / wr_pointToTokenRatio weeklyReward) + 1 / 2\<rfloor>
            \<and> userRewards s' = userRewards s @ [userReward]
            \<and> ur_UserId userReward = None
            \<and> ur_WeeklyRewardId userReward = None
            \<and> ur_tokens userReward = tokens
            \<and> ur_txHash userReward = Some txHash
            \<and> (\<forall>s2. \<exists>s2'. processUserReward rnd s2 weeklyReward userId tokens txHash =
                              Inr (userReward, s2'))))
       \<and> (\<not> fitsINTEGER \<lfloor>rnd (tokens / wr_pointToTokenRatio weeklyReward) + 1 / 2\<rfloor> \<longrightarrow>
            processUserReward rnd s weeklyReward userId tokens txHash =
              Inl (DatabaseError ''value out of range for type integer''))"
  using assms
  by (simp add: processUserReward_def createUserReward_def Let_def Math_round_def
        updateUsersWhereId_def)

theorem confirmed_points_witness:
  "wr_pointToTokenRatio pendingRun \<noteq> 0
   \<and> fitsINTEGER \<lfloor>exact (201 / wr_pointToTokenRatio pendingRun) + 1 / 2\<rfloor>
   \<and> (\<exists>userReward s'.
           processUserReward exact exampleStore pendingRun ''u1'' 201 ''tx1'' = Inr (userReward, s')
         \<and> ur_points userReward = \<lfloor>exact (201 / wr_pointToTokenRatio pendingRun) + 1 / 2\<rfloor>
         \<and> userRewards s' = userRewards exampleStore @ [userReward]
         \<and> ur_UserId userReward = None
         \<and> ur_WeeklyRewardId userReward = None
         \<and> ur_tokens userReward = 201
         \<and> ur_txHash userReward = Some ''tx1''
         \<and> (\<forall>s2. \<exists>s2'. processUserReward exact s2 pendingRun ''u1'' 201 ''tx1'' =
                           Inr (userReward, s2')))
   \<and> \<lfloor>exact ((201::rat) / wr_pointToTokenRatio pendingRun) + 1 / 2\<rfloor> = 101
   \<and> \<not> fitsINTEGER \<lfloor>exact (10000000000 / wr_pointToTokenRatio pendingRun) + 1 / 2\<rfloor>
   \<and> processUserReward exact exampleStore pendingRun ''u1'' 10000000000 ''tx2'' =
       Inl (DatabaseError ''value out of range for type integer'')"
proof -
  have h: "wr_pointToTokenRatio pendingRun \<noteq> 0"
    by (simp add: pendingRun_def)
  have f: "fitsINTEGER \<lfloor>exact (201 / wr_pointToTokenRatio pendingRun) + 1 / 2\<rfloor>"
    by code_simp
  have v: "\<lfloor>exact ((201::rat) / wr_pointToTokenRatio pendingRun) + 1 / 2\<rfloor> = 101"
    by code_simp
  have n: "\<not> fitsINTEGER \<lfloor>exact (10000000000 / wr_pointToTokenRatio pendingRun) + 1 / 2\<rfloor>"
    by code_simp
  from confirmed_points [OF h, of exact 201 exampleStore "''u1''" "''tx1''"]
       confirmed_points [OF h, of exact 10000000000 exampleStore "''u1''" "''tx2''"]
       h f v n
  show ?thesis
    by blast
qed

section \<open>The loop of the distributor\<close>

lemma processReward_no_wallet:
  "rd_walletAddress r = [] \<Longrightarrow> processReward ledger wrId r (a, b, s) = (a, b + 1, s)"
  by (simp add: processReward_def)

lemma processReward_wallet:
  assumes "rd_walletAddress r \<noteq> []"
  shows "processReward ledger wrId r (a, b, s) =
    (let out = ledger (length (ledgerLog s)) (rd_walletAddress r) (rd_tokenAmount r * 10 ^ TOKEN_DECIMALS);
         s1 = s\<lparr>ledgerLog := ledgerLog s @ [(rd_walletAddress r, rd_tokenAmount r * 10 ^ TOKEN_DECIMALS, out)],
                userRewards := userRewards s @ payoutRows (r, out)\<rparr>
     in if credited (r, out)
        then (a + 1, b,
              s1\<lparr>users := map (\<lambda>u. if Some (u_id u) = rd_userId r
                                    then u\<lparr>u_totalTokensEarned :=
                                             u_totalTokensEarned u + of_int (rd_tokenAmount r)\<rparr>
                                    else u) (users s)\<rparr>)
        else (a, b + 1, s1))"
  using assms
  by (cases "ledger (length (ledgerLog s)) (rd_walletAddress r) (rd_tokenAmount r * 10 ^ TOKEN_DECIMALS)";
      cases "rd_userId r")
     (simp_all add: processReward_def Let_def payoutRecord_def createUserReward_def
        incrementUsersWhereId_def updateUsersWhereId_def)

lemma attempts_Cons_no_wallet:
  "rd_walletAddress r = [] \<Longrightarrow> attempts ledger n (r # rs) = attempts ledger n rs"
  by (simp add: attempts_def)

lemma attempts_Cons_wallet:
  "rd_walletAddress r \<noteq> [] \<Longrightarrow>
     attempts ledger n (r # rs) =
       (r, ledger n (rd_walletAddress r) (rd_tokenAmount r * 10 ^ TOKEN_DECIMALS)) # attempts ledger (Suc n) rs"
  by (simp add: attempts_def)

lemma fold_processReward:
  "fold (processReward ledger wrId) rewards (a, b, s) = (a', b', s') \<Longrightarrow>
     userRewards s' = userRewards s @
        concat (map payoutRows (attempts ledger (length (ledgerLog s)) rewards))
   \<and> ledgerLog s' = ledgerLog s @
        map (\<lambda>(r, out). (rd_walletAddress r, rd_tokenAmount r * 10 ^ TOKEN_DECIMALS, out))
            (attempts ledger (length (ledgerLog s)) rewards)
   \<and> a' = a + length (filter credited (attempts ledger (length (ledgerLog s)) rewards))
   \<and> a' + b' = a + b + length rewards
   \<and> weeklyRewards s' = weeklyRewards s
   \<and> contributions s' = contributions s"
proof (induction rewards arbitrary: a b s)
  case Nil
  then show ?case by (simp add: attempts_def)
next
  case (Cons r rs)
  show ?case
  proof (cases "rd_walletAddress r = []")
    case True
    with Cons.prems have "fold (processReward ledger wrId) rs (a, b + 1, s) = (a', b', s')"
      by (simp add: processReward_no_wallet)
    from Cons.IH [OF this] True show ?thesis
      by (simp add: attempts_Cons_no_wallet)
  next
    case False
    obtain a1 b1 s1 where step: "processReward ledger wrId r (a, b, s) = (a1, b1, s1)"
      by (cases "processReward ledger wrId r (a, b, s)") auto
    with Cons.prems have rest: "fold (processReward ledger wrId) rs (a1, b1, s1) = (a', b', s')"
      by simp
    let ?out = "ledger (length (ledgerLog s)) (rd_walletAddress r) (rd_tokenAmount r * 10 ^ TOKEN_DECIMALS)"
    from step False have
      ur: "userRewards s1 = userRewards s @ payoutRows (r, ?out)" and
      ll: "ledgerLog s1 = ledgerLog s @ [(rd_walletAddress r, rd_tokenAmount r * 10 ^ TOKEN_DECIMALS, ?out)]" and
      a1: "a1 = a + (if credited (r, ?out) then 1 else 0)" and
      ab: "a1 + b1 = a + b + 1" and
      wr: "weeklyRewards s1 = weeklyRewards s" and
      cs: "contributions s1 = contributions s"
      by (auto simp: processReward_wallet Let_def split: if_splits)
    from Cons.IH [OF rest] ur ll a1 ab wr cs False show ?thesis
      by (simp add: attempts_Cons_wallet)
  qed
qed

text \<open>
  A planned reward whose user id is \<open>undefined\<close> is never counted as successful, and
  the loop leaves the users as they are.
\<close>

lemma fold_processReward_undefined:
  assumes "\<forall>r \<in> set rewards. rd_userId r = None"
    and "fold (processReward ledger wrId) rewards (a, b, s) = (a', b', s')"
  shows "a' = a \<and> users s' = users s"
  using assms
proof (induction rewards arbitrary: a b s)
  case Nil
  then show ?case by simp
next
  case (Cons r rs)
  from Cons.prems(1) have none: "rd_userId r = None" and rest: "\<forall>r \<in> set rs. rd_userId r = None"
    by simp_all
  obtain a1 b1 s1 where step: "processReward ledger wrId r (a, b, s) = (a1, b1, s1)"
    by (cases "processReward ledger wrId r (a, b, s)") auto
  with Cons.prems(2) have f: "fold (processReward ledger wrId) rs (a1, b1, s1) = (a', b', s')"
    by simp
  from step none have "a1 = a \<and> users s1 = users s"
    by (cases "rd_walletAddress r = []")
       (auto simp: processReward_no_wallet processReward_wallet Let_def)
  with Cons.IH [OF rest f] show ?case by simp
qed

lemma signed_payoutRows:
  "filter (\<lambda>u. ur_txHash u \<noteq> None) (concat (map payoutRows xs)) =
     map (\<lambda>(r, out). payoutRecord r (signatureOf out)) (filter (\<lambda>(r, out). signatureOf out \<noteq> None) xs)"
  by (induction xs) (auto simp: payoutRecord_def split: option.splits)

lemma length_payoutRows:
  "length xs \<le> length (concat (map payoutRows xs))"
  by (induction xs) (auto split: option.splits)

lemma fold_max_ge: "(a::nat) \<le> fold max xs a"
  by (induction xs arbitrary: a) (auto intro: order_trans [OF max.cobounded2])

lemma fold_max_mem: "x \<in> set xs \<Longrightarrow> (x::nat) \<le> fold max xs a"
  by (induction xs arbitrary: a) (auto intro: order_trans [OF max.cobounded1 fold_max_ge])

lemma newId_gt: "w \<in> set ws \<Longrightarrow> wr_id w < newId ws"
proof -
  assume "w \<in> set ws"
  then have "wr_id w \<in> set (map wr_id ws)" by simp
  from fold_max_mem [OF this, of 0] show ?thesis
    by (simp add: newId_def)
qed

lemma newId_fresh: "w \<in> set ws \<Longrightarrow> wr_id w \<noteq> newId ws"
  using newId_gt [of w ws] by simp

lemma update_new_row:
  assumes "wr_id w = newId ws"
  shows "map (\<lambda>r. if wr_id r = newId ws then f r else r) (ws @ [w]) = ws @ [f w]"
proof -
  have "map (\<lambda>r. if wr_id r = newId ws then f r else r) ws = ws"
    by (rule map_idI) (simp add: newId_fresh)
  with assms show ?thesis by simp
qed

lemma groupByUser_cong:
  assumes "users s' = users s"
  shows "groupByUser s' cs m = groupByUser s cs m"
proof (induction cs arbitrary: m)
  case Nil
  show ?case by simp
next
  case (Cons c cs)
  from assms have "includedUser s' c = includedUser s c"
    by (simp add: includedUser_def findUserByPk_def split: option.splits)
  then show ?case
    by (simp add: Cons.IH Let_def split: option.splits)
qed

lemma calculateWeeklyRewards_cong:
  assumes "users s' = users s" and "contributions s' = contributions s"
  shows "calculateWeeklyRewards rnd s' a b = calculateWeeklyRewards rnd s a b"
  by (simp add: calculateWeeklyRewards_def contributionsBetween_def assms(2) groupByUser_cong [OF assms(1)])

text \<open>
  A run of the distributor over a window whose plan is not empty. The user id of every
  planned reward is \<open>undefined\<close>, so no reward is counted as successful, whatever the
  ledger answers, and the run ends with the status failed.
\<close>

lemma distribute_nonempty:
  assumes plan: "calculateWeeklyRewards rnd s startDate endDate = Inr plan" and ne: "plan \<noteq> []"
    and d: "distributeWeeklyRewards rnd ledger now s startDate endDate = (res, s')"
  shows "userRewards s' = userRewards s @
           concat (map payoutRows (attempts ledger (length (ledgerLog s)) plan))"
    and "ledgerLog s' = ledgerLog s @
           map (\<lambda>(r, out). (rd_walletAddress r, rd_tokenAmount r * 10 ^ TOKEN_DECIMALS, out))
               (attempts ledger (length (ledgerLog s)) plan)"
    and "res_successfulTransactions res = 0"
    and "res_failedTransactions res = length plan"
    and "res_totalUsers res = length plan"
    and "res_errorMessage res = None"
    and "\<exists>w. weeklyRewards s' = weeklyRewards s @ [w] \<and> wr_id w = newId (weeklyRewards s) \<and>
             wr_weekStartDate w = startDate \<and> wr_weekEndDate w = endDate \<and>
             wr_status w = ''failed''"
    and "contributions s' = contributions s"
    and "users s' = users s"
    and "\<not> res_success res"
proof -
  let ?W = "\<lparr>wr_id = newId (weeklyRewards s), wr_weekStartDate = startDate, wr_weekEndDate = endDate,
             wr_totalPoints = sum_list (map rd_points plan),
             wr_totalTokens = of_int (sum_list (map rd_tokenAmount plan)),
             wr_pointToTokenRatio = rnd (WEEKLY_REWARD_POOL / of_int (sum_list (map rd_points plan))),
             wr_distributionTxHash = None, wr_distributedAt = None, wr_status = ''processing''\<rparr>"
  let ?s1 = "s\<lparr>weeklyRewards := weeklyRewards s @ [?W]\<rparr>"
  obtain a' b' s2 where f: "fold (processReward ledger (newId (weeklyRewards s))) plan (0, 0, ?s1) = (a', b', s2)"
    by (cases "fold (processReward ledger (newId (weeklyRewards s))) plan (0, 0, ?s1)") auto
  note L = fold_processReward [OF f]
  from calculateWeeklyRewards_userId [OF plan] have und: "\<forall>r \<in> set plan. rd_userId r = None"
    by blast
  from fold_processReward_undefined [OF und f] have a0: "a' = 0" and us: "users s2 = users s"
    by simp_all
  from L a0 have b: "b' = length plan" by simp
  let ?upd = "\<lambda>w. w\<lparr>wr_status := ''failed'', wr_distributedAt := Some now,
                        wr_distributionTxHash := Some ''batch_distribution''\<rparr>"
  let ?s3 = "s2\<lparr>weeklyRewards := map (\<lambda>w. if wr_id w = newId (weeklyRewards s) then ?upd w else w) (weeklyRewards s2)\<rparr>"
  let ?res = "\<lparr>res_success = False, res_totalUsers = length plan,
                res_totalTokens = sum_list (map rd_tokenAmount plan),
                res_totalPoints = sum_list (map rd_points plan),
                res_weekStartDate = startDate, res_weekEndDate = endDate,
                res_successfulTransactions = 0, res_failedTransactions = length plan,
                res_errorMessage = None\<rparr>"
  have "distributeWeeklyRewards rnd ledger now s startDate endDate = (?res, ?s3)"
    using plan ne f a0 b
    by (simp add: distributeWeeklyRewards_def Let_def resolveStatus_def updateWeeklyReward_def
          statusENUM_def)
  with d have res: "res = ?res" and s': "s' = ?s3" by simp_all
  have wr: "weeklyRewards ?s3 = weeklyRewards s @ [?upd ?W]"
    using L update_new_row [of ?W "weeklyRewards s" ?upd] by simp
  show "userRewards s' = userRewards s @
           concat (map payoutRows (attempts ledger (length (ledgerLog s)) plan))"
    using L by (simp add: s')
  show "ledgerLog s' = ledgerLog s @
           map (\<lambda>(r, out). (rd_walletAddress r, rd_tokenAmount r * 10 ^ TOKEN_DECIMALS, out))
               (attempts ledger (length (ledgerLog s)) plan)"
    using L by (simp add: s')
  show "res_successfulTransactions res = 0" by (simp add: res)
  show "res_failedTransactions res = length plan" by (simp add: res)
  show "res_totalUsers res = length plan" by (simp add: res)
  show "res_errorMessage res = None" by (simp add: res)
  show "\<exists>w. weeklyRewards s' = weeklyRewards s @ [w] \<and> wr_id w = newId (weeklyRewards s) \<and>
             wr_weekStartDate w = startDate \<and> wr_weekEndDate w = endDate \<and>
             wr_status w = ''failed''"
    using wr by (simp add: s')
  show "contributions s' = contributions s" using L by (simp add: s')
  show "users s' = users s" using us by (simp add: s')
  show "\<not> res_success res" by (simp add: res)
qed


section \<open>Failure isolation\<close>

lemma threeRewards_run:
  "fold (processReward aliceOnly 1) threeRewards (0, 0, exampleStore) = (0, 3, afterThree)"
  by code_simp

text \<open>
  C4, as amended. A planned payout \<open>r\<close> with a wallet address whose transfer attempt
  fails (before sending, at sending or at confirmation) gets one reward row with
  \<open>txHash: null\<close> and is counted as failed; the reward row has no outcome field, the
  null hash is the record of the failure. A planned payout \<open>rn\<close> with no wallet address
  is counted as failed and skipped: no transfer is attempted and no reward row is
  written for it. No failure aborts the loop: whatever the ledger answers, the loop over
  any planned rewards counts every one of them, attempts a transfer for every one with a
  wallet address, in their order, and writes the reward rows of every attempt. A run of
  \<open>distributeWeeklyRewards\<close> over a window whose plan is not empty ends without an
  error message and with every planned reward counted.
\<close>

theorem payout_failure_isolation:
  assumes "rd_walletAddress rn = []"
    and "rd_walletAddress r \<noteq> []"
    and "signatureOf (ledger (length (ledgerLog st)) (rd_walletAddress r)
                        (rd_tokenAmount r * 10 ^ TOKEN_DECIMALS)) = None"
    and "fold (processReward ledger wrId) rewards (0, 0, st) = (a', b', st')"
    and "calculateWeeklyRewards rnd s startDate endDate = Inr plan" and "plan \<noteq> []"
  shows "processReward ledger wrId r (a, b, st) =
           (a, b + 1,
            st\<lparr>ledgerLog := ledgerLog st @
                   [(rd_walletAddress r, rd_tokenAmount r * 10 ^ TOKEN_DECIMALS,
                     ledger (length (ledgerLog st)) (rd_walletAddress r)
                        (rd_tokenAmount r * 10 ^ TOKEN_DECIMALS))],
               userRewards := userRewards st @ [payoutRecord r None]\<rparr>)
       \<and> processReward ledger wrId rn (a, b, st) = (a, b + 1, st)
       \<and> a' + b' = length rewards
       \<and> ledgerLog st' = ledgerLog st @
            map (\<lambda>(q, out). (rd_walletAddress q, rd_tokenAmount q * 10 ^ TOKEN_DECIMALS, out))
                (attempts ledger (length (ledgerLog st)) rewards)
       \<and> userRewards st' = userRewards st @
            concat (map payoutRows (attempts ledger (length (ledgerLog st)) rewards))
       \<and> (\<exists>res s'. distributeWeeklyRewards rnd ledger now s startDate endDate = (res, s')
            \<and> res_errorMessage res = None
            \<and> res_successfulTransactions res + res_failedTransactions res = length plan
            \<and> res_totalUsers res = length plan
            \<and> ledgerLog s' = ledgerLog s @
                 map (\<lambda>(q, out). (rd_walletAddress q, rd_tokenAmount q * 10 ^ TOKEN_DECIMALS, out))
                     (attempts ledger (length (ledgerLog s)) plan)
            \<and> userRewards s' = userRewards s @
                 concat (map payoutRows (attempts ledger (length (ledgerLog s)) plan)))"
proof (intro conjI)
  from assms(2,3) show "processReward ledger wrId r (a, b, st) =
           (a, b + 1,
            st\<lparr>ledgerLog := ledgerLog st @
                   [(rd_walletAddress r, rd_tokenAmount r * 10 ^ TOKEN_DECIMALS,
                     ledger (length (ledgerLog st)) (rd_walletAddress r)
                        (rd_tokenAmount r * 10 ^ TOKEN_DECIMALS))],
               userRewards := userRewards st @ [payoutRecord r None]\<rparr>)"
    by (simp add: processReward_wallet Let_def)
next
  from assms(1) show "processReward ledger wrId rn (a, b, st) = (a, b + 1, st)"
    by (rule processReward_no_wallet)
next
  note L = fold_processReward [OF assms(4)]
  from L show "a' + b' = length rewards" by simp
  from L show "ledgerLog st' = ledgerLog st @
            map (\<lambda>(q, out). (rd_walletAddress q, rd_tokenAmount q * 10 ^ TOKEN_DECIMALS, out))
                (attempts ledger (length (ledgerLog st)) rewards)" by simp
  from L show "userRewards st' = userRewards st @
            concat (map payoutRows (attempts ledger (length (ledgerLog st)) rewards))" by simp
next
  obtain res s' where d: "distributeWeeklyRewards rnd ledger now s startDate endDate = (res, s')"
    by (cases "distributeWeeklyRewards rnd ledger now s startDate endDate") auto
  note D = distribute_nonempty [OF assms(5,6) d]
  show "\<exists>res s'. distributeWeeklyRewards rnd ledger now s startDate endDate = (res, s')
            \<and> res_errorMessage res = None
            \<and> res_successfulTransactions res + res_failedTransactions res = length plan
            \<and> res_totalUsers res = length plan
            \<and> ledgerLog s' = ledgerLog s @
                 map (\<lambda>(q, out). (rd_walletAddress q, rd_tokenAmount q * 10 ^ TOKEN_DECIMALS, out))
                     (attempts ledger (length (ledgerLog s)) plan)
            \<and> userRewards s' = userRewards s @
                 concat (map payoutRows (attempts ledger (length (ledgerLog s)) plan))"
    using d D(1,2,3,4,5,6) by (intro exI [of _ res] exI [of _ s']) simp
qed

theorem payout_failure_isolation_witness:
  "rd_walletAddress (threeRewards ! 0) = []
   \<and> rd_walletAddress (threeRewards ! 2) \<noteq> []
   \<and> signatureOf (aliceOnly (length (ledgerLog exampleStore)) (rd_walletAddress (threeRewards ! 2))
                        (rd_tokenAmount (threeRewards ! 2) * 10 ^ TOKEN_DECIMALS)) = None
   \<and> fold (processReward aliceOnly 1) threeRewards (0, 0, exampleStore) = (0, 3, afterThree)
   \<and> calculateWeeklyRewards exact exampleStore 0 10 = Inr [mergedReward]
   \<and> [mergedReward] \<noteq> []
   \<and> processReward aliceOnly 1 (threeRewards ! 2) (0, 0, exampleStore) =
           (0, 0 + 1,
            exampleStore\<lparr>ledgerLog := ledgerLog exampleStore @
                   [(rd_walletAddress (threeRewards ! 2),
                     rd_tokenAmount (threeRewards ! 2) * 10 ^ TOKEN_DECIMALS,
                     aliceOnly (length (ledgerLog exampleStore)) (rd_walletAddress (threeRewards ! 2))
                        (rd_tokenAmount (threeRewards ! 2) * 10 ^ TOKEN_DECIMALS))],
               userRewards := userRewards exampleStore @ [payoutRecord (threeRewards ! 2) None]\<rparr>)
   \<and> processReward aliceOnly 1 (threeRewards ! 0) (0, 0, exampleStore) = (0, 0 + 1, exampleStore)
   \<and> (0::nat) + 3 = length threeRewards
   \<and> ledgerLog afterThree = ledgerLog exampleStore @
        map (\<lambda>(q, out). (rd_walletAddress q, rd_tokenAmount q * 10 ^ TOKEN_DECIMALS, out))
            (attempts aliceOnly (length (ledgerLog exampleStore)) threeRewards)
   \<and> userRewards afterThree = userRewards exampleStore @
        concat (map payoutRows (attempts aliceOnly (length (ledgerLog exampleStore)) threeRewards))
   \<and> (\<exists>res s'. distributeWeeklyRewards exact aliceOnly 11 exampleStore 0 10 = (res, s')
            \<and> res_errorMessage res = None
            \<and> res_successfulTransactions res + res_failedTransactions res = length [mergedReward]
            \<and> res_totalUsers res = length [mergedReward]
            \<and> ledgerLog s' = ledgerLog exampleStore @
                 map (\<lambda>(q, out). (rd_walletAddress q, rd_tokenAmount q * 10 ^ TOKEN_DECIMALS, out))
                     (attempts aliceOnly (length (ledgerLog exampleStore)) [mergedReward])
            \<and> userRewards s' = userRewards exampleStore @
                 concat (map payoutRows (attempts aliceOnly (length (ledgerLog exampleStore)) [mergedReward])))
   \<and> map ur_txHash (userRewards afterThree) = [Some ''sig'', None, None]
   \<and> map fst (ledgerLog afterThree) = [aliceWallet, ''not a wallet'']"
proof -
  have h1: "rd_walletAddress (threeRewards ! 0) = []"
    by (simp add: threeRewards_def)
  have h2: "rd_walletAddress (threeRewards ! 2) \<noteq> []"
    by (simp add: threeRewards_def)
  have h3: "signatureOf (aliceOnly (length (ledgerLog exampleStore)) (rd_walletAddress (threeRewards ! 2))
                        (rd_tokenAmount (threeRewards ! 2) * 10 ^ TOKEN_DECIMALS)) = None"
    by (simp add: threeRewards_def aliceOnly_def aliceWallet_def)
  have h6: "[mergedReward] \<noteq> []"
    by simp
  have v1: "map ur_txHash (userRewards afterThree) = [Some ''sig'', None, None]"
    by code_simp
  have v2: "map fst (ledgerLog afterThree) = [aliceWallet, ''not a wallet'']"
    by code_simp
  note T = payout_failure_isolation
         [where rn = "threeRewards ! 0" and r = "threeRewards ! 2" and ledger = aliceOnly
            and st = exampleStore and wrId = 1 and rewards = threeRewards and a' = 0 and b' = 3
            and st' = afterThree and rnd = exact and s = exampleStore and startDate = 0
            and endDate = 10 and plan = "[mergedReward]" and a = 0 and b = 0 and now = 11,
          OF h1 h2 h3 threeRewards_run examplePlan h6]
  show ?thesis
    by (intro conjI) (rule h1 h2 h3 threeRewards_run examplePlan h6 v1 v2 T [THEN conjunct1]
          T [THEN conjunct2, THEN conjunct1]
          T [THEN conjunct2, THEN conjunct2, THEN conjunct1]
          T [THEN conjunct2, THEN conjunct2, THEN conjunct2, THEN conjunct1]
          T [THEN conjunct2, THEN conjunct2, THEN conjunct2, THEN conjunct2, THEN conjunct1]
          T [THEN conjunct2, THEN conjunct2, THEN conjunct2, THEN conjunct2, THEN conjunct2])+
qed

text \<open>
  The claim C4 as it stands (every failed payout, a missing wallet address included, gets
  a reward row with a null transaction reference) fails for the missing wallet address:
  in the store whose one contribution is that of the user without a wallet address, the
  planned payout is counted as failed and the run ends without an error, but no reward
  row is written.
\<close>

theorem failure_isolation_counterexample:
  "calculateWeeklyRewards exact walletlessStore 0 10 = Inr [walletlessReward]
   \<and> rd_walletAddress walletlessReward = []
   \<and> res_failedTransactions (fst (distributeWeeklyRewards exact alwaysConfirmed 11 walletlessStore 0 10)) = 1
   \<and> res_errorMessage (fst (distributeWeeklyRewards exact alwaysConfirmed 11 walletlessStore 0 10)) = None
   \<and> userRewards (snd (distributeWeeklyRewards exact alwaysConfirmed 11 walletlessStore 0 10)) = []
   \<and> ledgerLog (snd (distributeWeeklyRewards exact alwaysConfirmed 11 walletlessStore 0 10)) = []"
  by code_simp

section \<open>Running the distributor twice\<close>

text \<open>
  C1, as amended. The distributor has no resume. It takes a window, not a run; when
  the plan of the window is not empty, a second run over the window computes the same
  plan as the first, creates a second run, and makes a transfer attempt again for every
  planned payout with a wallet address, whatever reward rows exist: the ledger attempts
  grow by the number of planned payouts with a wallet address. The reward rows of the
  first run stay and those of the second are appended, at least one for every attempt:
  the rows with a transaction reference grow by one for every transfer that the second
  run saw confirmed. No payout is skipped for having a reward row with a transaction
  reference.
\<close>

theorem second_run_repeats:
  assumes "calculateWeeklyRewards rnd s startDate endDate = Inr plan" and "plan \<noteq> []"
    and "distributeWeeklyRewards rnd ledger now s startDate endDate = (res1, s1)"
    and "distributeWeeklyRewards rnd ledger now' s1 startDate endDate = (res2, s2)"
  shows "calculateWeeklyRewards rnd s1 startDate endDate = Inr plan
       \<and> ledgerLog s2 = ledgerLog s1 @
             map (\<lambda>(r, out). (rd_walletAddress r, rd_tokenAmount r * 10 ^ TOKEN_DECIMALS, out))
                 (attempts ledger (length (ledgerLog s1)) plan)
       \<and> length (ledgerLog s2) =
             length (ledgerLog s1) + length (filter (\<lambda>r. rd_walletAddress r \<noteq> []) plan)
       \<and> userRewards s2 = userRewards s1 @
             concat (map payoutRows (attempts ledger (length (ledgerLog s1)) plan))
       \<and> filter (\<lambda>u. ur_txHash u \<noteq> None) (userRewards s2) =
             filter (\<lambda>u. ur_txHash u \<noteq> None) (userRewards s1) @
             map (\<lambda>(r, out). payoutRecord r (signatureOf out))
                 (filter (\<lambda>(r, out). signatureOf out \<noteq> None)
                    (attempts ledger (length (ledgerLog s1)) plan))
       \<and> length (userRewards s2) \<ge>
             length (userRewards s1) + length (filter (\<lambda>r. rd_walletAddress r \<noteq> []) plan)
       \<and> length (weeklyRewards s2) = length (weeklyRewards s) + 2"
proof -
  have len: "\<And>n. length (attempts ledger n plan) = length (filter (\<lambda>r. rd_walletAddress r \<noteq> []) plan)"
    by (simp add: attempts_def)
  note D1 = distribute_nonempty [OF assms(1,2,3)]
  have plan1: "calculateWeeklyRewards rnd s1 startDate endDate = Inr plan"
    using calculateWeeklyRewards_cong [of s1 s rnd startDate endDate] D1(8,9) assms(1) by simp
  note D2 = distribute_nonempty [OF plan1 assms(2,4)]
  from D1(7) D2(7) have w: "length (weeklyRewards s2) = length (weeklyRewards s) + 2"
    by auto
  have signed: "filter (\<lambda>u. ur_txHash u \<noteq> None) (userRewards s2) =
             filter (\<lambda>u. ur_txHash u \<noteq> None) (userRewards s1) @
             map (\<lambda>(r, out). payoutRecord r (signatureOf out))
                 (filter (\<lambda>(r, out). signatureOf out \<noteq> None)
                    (attempts ledger (length (ledgerLog s1)) plan))"
    by (simp only: D2(1) filter_append signed_payoutRows)
  have rows: "length (userRewards s2) \<ge>
             length (userRewards s1) + length (filter (\<lambda>r. rd_walletAddress r \<noteq> []) plan)"
    using length_payoutRows [of "attempts ledger (length (ledgerLog s1)) plan"]
    by (simp add: D2(1) len)
  from plan1 D2(1,2) w len signed rows show ?thesis
    by simp
qed

theorem second_run_repeats_witness:
  "calculateWeeklyRewards exact exampleStore 0 10 = Inr [mergedReward]
   \<and> [mergedReward] \<noteq> []
   \<and> distributeWeeklyRewards exact alwaysConfirmed 11 exampleStore 0 10 = (firstResult, afterFirstRun)
   \<and> distributeWeeklyRewards exact alwaysConfirmed 12 afterFirstRun 0 10 = (secondResult, afterSecondRun)
   \<and> calculateWeeklyRewards exact afterFirstRun 0 10 = Inr [mergedReward]
       \<and> ledgerLog afterSecondRun = ledgerLog afterFirstRun @
             map (\<lambda>(r, out). (rd_walletAddress r, rd_tokenAmount r * 10 ^ TOKEN_DECIMALS, out))
                 (attempts alwaysConfirmed (length (ledgerLog afterFirstRun)) [mergedReward])
       \<and> length (ledgerLog afterSecondRun) =
             length (ledgerLog afterFirstRun)
               + length (filter (\<lambda>r. rd_walletAddress r \<noteq> []) [mergedReward])
       \<and> userRewards afterSecondRun = userRewards afterFirstRun @
             concat (map payoutRows (attempts alwaysConfirmed (length (ledgerLog afterFirstRun)) [mergedReward]))
       \<and> filter (\<lambda>u. ur_txHash u \<noteq> None) (userRewards afterSecondRun) =
             filter (\<lambda>u. ur_txHash u \<noteq> None) (userRewards afterFirstRun) @
             map (\<lambda>(r, out). payoutRecord r (signatureOf out))
                 (filter (\<lambda>(r, out). signatureOf out \<noteq> None)
                    (attempts alwaysConfirmed (length (ledgerLog afterFirstRun)) [mergedReward]))
       \<and> length (userRewards afterSecondRun) \<ge>
             length (userRewards afterFirstRun)
               + length (filter (\<lambda>r. rd_walletAddress r \<noteq> []) [mergedReward])
       \<and> length (weeklyRewards afterSecondRun) = length (weeklyRewards exampleStore) + 2"
proof -
  have h2: "[mergedReward] \<noteq> []"
    by simp
  have h3: "distributeWeeklyRewards exact alwaysConfirmed 11 exampleStore 0 10 = (firstResult, afterFirstRun)"
    by (simp add: firstResult_def afterFirstRun_def)
  have h4: "distributeWeeklyRewards exact alwaysConfirmed 12 afterFirstRun 0 10 = (secondResult, afterSecondRun)"
    by (simp add: secondResult_def afterSecondRun_def)
  from second_run_repeats [OF examplePlan h2 h3 h4] examplePlan h2 h3 h4 show ?thesis
    by blast
qed

text \<open>
  The claim C1 as it stands (a second run leaves the reward rows as the first run left
  them and submits no transfer for a contributor who already has a successful reward
  row) fails: with a ledger that confirms every transfer, the first run over the example
  store makes one transfer and leaves two reward rows, the first with the signature of
  the transfer, and counts no success; the second run makes the same transfer again, and
  leaves four reward rows, two of them with a signature, two transfers to the same
  wallet and two runs of the same window.
\<close>

theorem second_run_counterexample:
  "map ur_txHash (userRewards afterFirstRun) = [Some ''sig'', None]
   \<and> map fst (ledgerLog afterFirstRun) = [aliceWallet]
   \<and> res_successfulTransactions firstResult = 0
   \<and> map ur_txHash (userRewards afterSecondRun) = [Some ''sig'', None, Some ''sig'', None]
   \<and> map fst (ledgerLog afterSecondRun) = [aliceWallet, aliceWallet]
   \<and> map wr_weekStartDate (weeklyRewards afterSecondRun) = [0, 0]
   \<and> map wr_weekEndDate (weeklyRewards afterSecondRun) = [10, 10]"
  by code_simp

section \<open>The final status of a run\<close>

text \<open>
  The run that \<open>distributeWeeklyRewards\<close> creates for a plan that is not empty: the
  user id of every planned reward is \<open>undefined\<close>, so no payout is counted as
  successful, and the run ends with the status failed.
\<close>

lemma distribute_status:
  assumes "calculateWeeklyRewards rnd s startDate endDate = Inr plan" and "plan \<noteq> []"
    and "distributeWeeklyRewards rnd ledger now s startDate endDate = (res, s')"
  shows "res_successfulTransactions res = 0 \<and> \<not> res_success res
       \<and> (\<exists>w. weeklyRewards s' = weeklyRewards s @ [w] \<and> wr_status w = ''failed'')"
proof -
  note D = distribute_nonempty [OF assms]
  from D(7) obtain w where "weeklyRewards s' = weeklyRewards s @ [w]" "wr_status w = ''failed''"
    by blast
  then have "\<exists>w. weeklyRewards s' = weeklyRewards s @ [w] \<and> wr_status w = ''failed''"
    by (intro exI [of _ w]) simp
  with D(3,10) show ?thesis by simp
qed

text \<open>
  The handler of \<open>POST /distribution-complete\<close> changes a run only when the successful
  transactions equal the total users; otherwise the status it computes is refused.
\<close>

lemma distributionComplete_cases:
  "distributionComplete s weekStartDate weekEndDate totalUsers successfulTransactions = (code, s') \<Longrightarrow>
     (code = 404 \<and> s' = s)
   \<or> (code = 500 \<and> s' = s \<and> successfulTransactions \<noteq> totalUsers)
   \<or> (code = 200 \<and> successfulTransactions = totalUsers)"
  by (auto simp: distributionComplete_def updateWeeklyReward_def statusENUM_def
        split: option.splits if_splits)

text \<open>
  C5. The claim fails on the handler of \<open>POST /distribution-complete\<close>, by a missed
  case: the handler knows the statuses completed and partial only, and has no branch for
  failed. Called for the pending run of the example with two users and no successful
  transaction, it computes the status partial, which is not a value of the ENUM of the
  column: the save throws, the handler answers 500 and the run stays pending, where the
  claim gives failed. The status expression of \<open>distributeWeeklyRewards\<close> has the
  branch: for the same counts it gives failed.
\<close>

theorem distribution_complete_no_success:
  "distributionComplete storeWithRun 0 10 2 0 = (500, storeWithRun)
   \<and> map wr_status (weeklyRewards storeWithRun) = [''pending'']
   \<and> ''partial'' \<notin> set statusENUM
   \<and> resolveStatus 0 2 = ''failed''"
  by code_simp

end
